theory Spec2Isabelle
  imports Complex_Main "HOL-Library.Sublist"
begin

section \<open>Python values the scripts rely on\<close>

text \<open>
  The five scripts of the repository (\<^verbatim>\<open>get_metrics_psutil.py\<close>,
  \<^verbatim>\<open>scrape_metrics_psutil_reduced.py\<close>, \<^verbatim>\<open>t_scrape_metrics_psutil.py\<close>,
  \<^verbatim>\<open>scrape_metrics_top.py\<close>, \<^verbatim>\<open>t_scrape_metrics_top.py\<close>) share most of their
  functions verbatim. Each function is embedded once; where two scripts differ, the
  variants get separate definitions named after the script.

  Modelling conventions.
  \<^item> A Python exception is a value of \<open>py_error\<close>; a function that can raise returns
    \<open>py_error + 'a\<close> with \<open>Inl\<close> for the exception, and \<open>try ... except (E1, E2)\<close> is
    \<open>catch {E1, E2}\<close>.
  \<^item> \<open>str\<close> is \<open>string\<close>, a list of code points below 256. The whitespace of
    \<open>str.strip\<close>, \<open>str.split\<close> and the pattern \<open>\s\<close> is what \<open>str.isspace\<close> accepts
    there: the code points 9 to 13, 28 to 31, 32, 133 and 160.
  \<^item> \<open>int\<close> is \<open>int\<close>. \<open>int(str)\<close> reads a decimal literal (sign, digits, single
    underscores between digits) and refuses one of more than 4300 digits, the default
    limit of CPython 3.11, which the scripts do not change. The same limit makes the
    decimal text of a longer \<open>int\<close> a \<open>ValueError\<close>, which \<open>json.dump\<close> meets when
    it writes the counter.
  \<^item> A \<open>float\<close> that the rate tracker handles is a \<open>pyfloat\<close>: a finite value, an
    infinity or NaN. The percentages that psutil reports are finite and are \<open>real\<close>.
    The rounding of a finite result is left out: a finite result is exact.
\<close>

datatype py_error = ValueError | IndexError | TypeError | AttributeError
  | ZeroDivisionError | OverflowError | JSONDecodeError | FileNotFoundError | PermissionError

definition catch :: "py_error set \<Rightarrow> py_error + 'a \<Rightarrow> 'a \<Rightarrow> py_error + 'a" where
  "catch handled body fallback =
     (case body of
        Inl e \<Rightarrow> if e \<in> handled then Inr fallback else Inl e
      | Inr v \<Rightarrow> Inr v)"

definition py_index :: "'a list \<Rightarrow> nat \<Rightarrow> py_error + 'a" where
  "py_index xs i = (if i < length xs then Inr (xs ! i) else Inl IndexError)"

definition is_space :: "char \<Rightarrow> bool" where
  "is_space c = (c \<in> {CHR 0x09, CHR 0x0A, CHR 0x0B, CHR 0x0C, CHR 0x0D,
                        CHR 0x1C, CHR 0x1D, CHR 0x1E, CHR 0x1F, CHR 0x20,
                        CHR 0x85, CHR 0xA0})"

definition lstrip :: "string \<Rightarrow> string" where
  "lstrip s = dropWhile is_space s"

definition rstrip :: "string \<Rightarrow> string" where
  "rstrip s = rev (dropWhile is_space (rev s))"

definition strip :: "string \<Rightarrow> string" where
  "strip s = rstrip (lstrip s)"

definition startswith :: "string \<Rightarrow> string \<Rightarrow> bool" where
  "startswith s p = (take (length p) s = p)"

text \<open>\<open>s.split(sep)\<close> for a one-character separator: never an empty list.\<close>

fun split_on :: "char \<Rightarrow> string \<Rightarrow> string list" where
  "split_on sep [] = [[]]"
| "split_on sep (c # cs) =
     (if c = sep then [] # split_on sep cs
      else (case split_on sep cs of
              [] \<Rightarrow> [[c]]
            | l # ls \<Rightarrow> (c # l) # ls))"

text \<open>\<open>s.split()\<close>: the maximal runs of non-whitespace; \<open>cur\<close> is the run being read,
  reversed.\<close>

fun split_ws :: "string \<Rightarrow> string \<Rightarrow> string list" where
  "split_ws cur [] = (if cur = [] then [] else [rev cur])"
| "split_ws cur (c # cs) =
     (if is_space c then (if cur = [] then split_ws [] cs else rev cur # split_ws [] cs)
      else split_ws (c # cur) cs)"

definition py_split :: "string \<Rightarrow> string list" where
  "py_split s = split_ws [] s"

text \<open>\<open>sep.join(items)\<close>.\<close>

fun join :: "string \<Rightarrow> string list \<Rightarrow> string" where
  "join sep [] = []"
| "join sep [x] = x"
| "join sep (x # y # ys) = x @ sep @ join sep (y # ys)"

definition digit_value :: "char \<Rightarrow> nat option" where
  "digit_value c =
     (let n = (of_char c :: nat) in if 48 \<le> n \<and> n \<le> 57 then Some (n - 48) else None)"

text \<open>The digits of an integer literal; \<open>prev\<close> says that the previous character was a
  digit, which an underscore and the end of the literal both require.\<close>

fun int_digits :: "nat \<Rightarrow> bool \<Rightarrow> string \<Rightarrow> nat option" where
  "int_digits acc prev [] = (if prev then Some acc else None)"
| "int_digits acc prev (c # cs) =
     (if c = CHR ''_'' then (if prev then int_digits acc False cs else None)
      else (case digit_value c of
              None \<Rightarrow> None
            | Some d \<Rightarrow> int_digits (10 * acc + d) True cs))"

text \<open>
  \<open>int(s)\<close>. The whitespace that \<open>int\<close> strips is narrower than that of \<open>str.strip\<close>:
  the code points 28 to 31 are not part of it. A literal of more than
  \<open>int_max_str_digits\<close> digits (underscores not counted, leading zeros counted) raises
  \<open>ValueError\<close> like a malformed one.
\<close>

definition is_int_space :: "char \<Rightarrow> bool" where
  "is_int_space c = (c \<in> {CHR 0x09, CHR 0x0A, CHR 0x0B, CHR 0x0C, CHR 0x0D, CHR 0x20,
                            CHR 0x85, CHR 0xA0})"

definition int_max_str_digits :: nat where
  "int_max_str_digits = 4300"

definition int_literal :: "string \<Rightarrow> nat option" where
  "int_literal ds =
     (if int_max_str_digits < length (filter (\<lambda>c. c \<noteq> CHR ''_'') ds) then None
      else int_digits 0 False ds)"

definition py_int :: "string \<Rightarrow> py_error + int" where
  "py_int s =
     (case rev (dropWhile is_int_space (rev (dropWhile is_int_space s))) of
        [] \<Rightarrow> Inl ValueError
      | c # r \<Rightarrow>
          (if c = CHR ''-'' then
             (case int_literal r of None \<Rightarrow> Inl ValueError | Some n \<Rightarrow> Inr (- int n))
           else
             (case int_literal (if c = CHR ''+'' then r else c # r) of
                None \<Rightarrow> Inl ValueError
              | Some n \<Rightarrow> Inr (int n))))"

section \<open>The status page: \<open>get_nginx_stub_status\<close>\<close>

text \<open>
  The outcome of \<open>requests.get\<close> followed by \<open>raise_for_status\<close>: either the request
  failed (the \<open>except\<close> branch returns \<open>0, 0\<close>) or the response body is at hand.
\<close>

datatype http_fetch = RequestFailed | Response string

text \<open>The \<open>for line in lines\<close> loop of the first \<open>try\<close> block; the match \<open>break\<close>s.\<close>

fun active_loop :: "string list \<Rightarrow> int \<Rightarrow> py_error + int" where
  "active_loop [] active_connections = Inr active_connections"
| "active_loop (line # rest) active_connections =
     (if startswith line ''Active connections:'' then
        (let parts = py_split line in
         if 3 \<le> length parts then py_int (parts ! 2) else Inr active_connections)
      else active_loop rest active_connections)"

definition parse_active_connections :: "string list \<Rightarrow> py_error + int" where
  "parse_active_connections lines = catch {ValueError, IndexError} (active_loop lines 0) 0"

text \<open>The body of the second \<open>try\<close> block, and the block with its handler.\<close>

definition total_try :: "string list \<Rightarrow> int \<Rightarrow> py_error + int" where
  "total_try lines total_requests =
     (case py_index lines 2 of
        Inl e \<Rightarrow> Inl e
      | Inr l \<Rightarrow>
          (let parts = py_split (strip l) in
           if length parts = 3 then py_int (parts ! 2) else Inr total_requests))"

definition parse_total_requests :: "string list \<Rightarrow> py_error + int" where
  "parse_total_requests lines = catch {ValueError, IndexError} (total_try lines 0) 0"

text \<open>
  \<open>get_nginx_stub_status\<close> as \<^verbatim>\<open>get_metrics_psutil.py\<close>, \<^verbatim>\<open>t_scrape_metrics_psutil.py\<close>,
  \<^verbatim>\<open>scrape_metrics_top.py\<close> and \<^verbatim>\<open>t_scrape_metrics_top.py\<close> have it.
\<close>

definition get_nginx_stub_status :: "http_fetch \<Rightarrow> py_error + (int \<times> int)" where
  "get_nginx_stub_status resp =
     (case resp of
        RequestFailed \<Rightarrow> Inr (0, 0)
      | Response body \<Rightarrow>
          (let text = strip body in
           if text = [] then Inr (0, 0)
           else
             (let lines = split_on (CHR ''\<newline>'') text in
              if length lines < 3 then Inr (0, 0)
              else
                (case parse_active_connections lines of
                   Inl e \<Rightarrow> Inl e
                 | Inr active_connections \<Rightarrow>
                     (case parse_total_requests lines of
                        Inl e \<Rightarrow> Inl e
                      | Inr total_requests \<Rightarrow> Inr (active_connections, total_requests))))))"

text \<open>
  The variant of \<^verbatim>\<open>scrape_metrics_psutil_reduced.py\<close>: no test for an empty text, and
  the \<open>try\<close> around \<open>int(parts[2])\<close> sits inside the loop.
\<close>

fun active_loop_reduced :: "string list \<Rightarrow> int \<Rightarrow> py_error + int" where
  "active_loop_reduced [] active_connections = Inr active_connections"
| "active_loop_reduced (line # rest) active_connections =
     (if startswith line ''Active connections:'' then
        (let parts = py_split line in
         catch {ValueError, IndexError}
           (case py_index parts 2 of Inl e \<Rightarrow> Inl e | Inr tok \<Rightarrow> py_int tok) 0)
      else active_loop_reduced rest active_connections)"

definition get_nginx_stub_status_reduced :: "http_fetch \<Rightarrow> py_error + (int \<times> int)" where
  "get_nginx_stub_status_reduced resp =
     (case resp of
        RequestFailed \<Rightarrow> Inr (0, 0)
      | Response body \<Rightarrow>
          (let text = strip body;
               lines = split_on (CHR ''\<newline>'') text in
           if length lines < 3 then Inr (0, 0)
           else
             (case active_loop_reduced lines 0 of
                Inl e \<Rightarrow> Inl e
              | Inr active_connections \<Rightarrow>
                  (case parse_total_requests lines of
                     Inl e \<Rightarrow> Inl e
                   | Inr total_requests \<Rightarrow> Inr (active_connections, total_requests)))))"

text \<open>The lines the parser works on, and the test that selects the connections line.\<close>

definition status_lines :: "string \<Rightarrow> string list" where
  "status_lines body = split_on (CHR ''\<newline>'') (strip body)"

definition active_line :: "string \<Rightarrow> bool" where
  "active_line l = startswith l ''Active connections:''"

text \<open>Status texts used as concrete inputs below.\<close>

definition example_status :: string where
  "example_status = ''Active connections: 5\<newline>server accepts handled requests\<newline> 100 100 250\<newline>Reading: 0 Writing: 1 Waiting: 4\<newline>''"

definition four_field_status :: string where
  "four_field_status = ''Active connections: 5\<newline>server accepts handled requests\<newline> 100 100 250 7\<newline>Reading: 0 Writing: 1 Waiting: 4\<newline>''"

definition headless_status :: string where
  "headless_status = ''connections: 5\<newline>server accepts handled requests\<newline> 100 100 250\<newline>''"

definition garbled_active_status :: string where
  "garbled_active_status = ''Active connections: many\<newline>server accepts handled requests\<newline> 100 100 250\<newline>''"

definition trailing_blank_status :: string where
  "trailing_blank_status = ''Active connections: 291 \<newline>server accepts handled requests\<newline> 16630948 16630948 31070481 \<newline>Reading: 21 Writing: 2 Waiting: 21 \<newline>''"

definition leading_blank_status :: string where
  "leading_blank_status = ''\<newline>Active connections: 5\<newline> 100 100 250''"

section \<open>The rate tracker: \<open>compute_requests_per_second\<close>\<close>

text \<open>
  Floats as the rate tracker meets them. \<open>Fin r\<close> is the float of value \<open>r\<close>; the state
  file may also hold \<open>Infinity\<close>, \<open>-Infinity\<close> and \<open>NaN\<close>, which \<open>json.load\<close> accepts. A
  number of magnitude \<open>float_bound\<close> or more has no finite float next to it: converting
  such an \<open>int\<close> raises \<open>OverflowError\<close>, and a subtraction or division of floats with
  such a result gives an infinity.
\<close>

datatype pyfloat = Fin real | PInf | NInf | NaN

definition float_bound :: real where
  "float_bound = 2 ^ 1024 - 2 ^ 970"

definition fl :: "real \<Rightarrow> pyfloat" where
  "fl r = (if float_bound \<le> r then PInf else if r \<le> - float_bound then NInf else Fin r)"

text \<open>The conversion of an \<open>int\<close> operand, when the other operand is a float.\<close>

definition float_of_int :: "int \<Rightarrow> py_error + pyfloat" where
  "float_of_int n =
     (if float_bound \<le> \<bar>of_int n\<bar> then Inl OverflowError else Inr (Fin (of_int n)))"

text \<open>\<open>x - y\<close>, \<open>x < y\<close> and \<open>x / y\<close> on floats. A comparison with NaN is false. A
  division by zero raises; an overflow does not.\<close>

fun float_sub :: "pyfloat \<Rightarrow> pyfloat \<Rightarrow> pyfloat" where
  "float_sub NaN y = NaN"
| "float_sub x NaN = NaN"
| "float_sub (Fin a) (Fin b) = fl (a - b)"
| "float_sub (Fin a) PInf = NInf"
| "float_sub (Fin a) NInf = PInf"
| "float_sub PInf PInf = NaN"
| "float_sub PInf y = PInf"
| "float_sub NInf NInf = NaN"
| "float_sub NInf y = NInf"

fun float_less :: "pyfloat \<Rightarrow> pyfloat \<Rightarrow> bool" where
  "float_less NaN y = False"
| "float_less x NaN = False"
| "float_less (Fin a) (Fin b) = (a < b)"
| "float_less x PInf = (x \<noteq> PInf)"
| "float_less NInf y = (y \<noteq> NInf)"
| "float_less x y = False"

fun float_div :: "pyfloat \<Rightarrow> pyfloat \<Rightarrow> py_error + pyfloat" where
  "float_div x (Fin b) =
     (if b = 0 then Inl ZeroDivisionError
      else (case x of
              Fin a \<Rightarrow> Inr (fl (a / b))
            | PInf \<Rightarrow> Inr (if 0 < b then PInf else NInf)
            | NInf \<Rightarrow> Inr (if 0 < b then NInf else PInf)
            | NaN \<Rightarrow> Inr NaN))"
| "float_div (Fin a) y = Inr (if y = NaN then NaN else Fin 0)"
| "float_div x y = Inr NaN"

text \<open>
  What \<open>json.load\<close> can return. An integer literal is read as an \<open>int\<close>, any other
  number as a \<open>float\<close>. A JSON object keeps its pairs in the order of the text; Python's
  \<open>dict\<close> keeps the last value of a repeated key.
\<close>

datatype json = JNull | JBool bool | JInt int | JFloat pyfloat | JString string
  | JArray "json list" | JObject "(string \<times> json) list"

text \<open>
  What reading the state file gives once \<open>os.path.isfile\<close> has found it: \<open>open\<close> or the
  read raises, the content is not JSON (\<open>json.JSONDecodeError\<close>), or the content is a
  JSON value. The file is either absent or there.
\<close>

datatype file_read = ReadRaises py_error | Malformed | Parsed json

datatype state_file = NoFile | StateFile file_read

text \<open>
  A state file that holds the counter \<open>c\<close> and the time \<open>t\<close>, and the one that
  \<open>json.dump({"last_requests": current_requests, "last_time": now}, f)\<close> writes: the
  clock reading \<open>now = time.time()\<close> is a finite float.
\<close>

definition rate_state :: "int \<Rightarrow> pyfloat \<Rightarrow> state_file" where
  "rate_state c t =
     StateFile (Parsed (JObject [(''last_requests'', JInt c), (''last_time'', JFloat t)]))"

definition saved_state :: "int \<Rightarrow> real \<Rightarrow> state_file" where
  "saved_state current_requests now = rate_state current_requests (Fin now)"

text \<open>\<open>state.get(key, default)\<close> on the pairs of a JSON object.\<close>

definition dict_get :: "(string \<times> json) list \<Rightarrow> string \<Rightarrow> json \<Rightarrow> json" where
  "dict_get kvs k d = (case map_of (rev kvs) k of None \<Rightarrow> d | Some v \<Rightarrow> v)"

text \<open>The operand of an arithmetic operator or of a comparison with a number: an
  \<open>int\<close> (a boolean is one), a float, or else a \<open>TypeError\<close>.\<close>

datatype pynum = PyInt int | PyFloat pyfloat

definition as_number :: "json \<Rightarrow> py_error + pynum" where
  "as_number j =
     (case j of
        JInt n \<Rightarrow> Inr (PyInt n)
      | JFloat x \<Rightarrow> Inr (PyFloat x)
      | JBool b \<Rightarrow> Inr (PyInt (if b then 1 else 0))
      | _ \<Rightarrow> Inl TypeError)"

text \<open>
  The arithmetic of the function, by the types of the operands. \<open>now > last_time\<close>
  compares a float with an \<open>int\<close> exactly. \<open>now - last_time\<close>,
  \<open>current_requests - last_requests\<close> and \<open>diff_requests / elapsed\<close> convert an \<open>int\<close>
  operand to a float when the other operand is a float; two \<open>int\<close>s are subtracted
  exactly.
\<close>

definition now_greater :: "real \<Rightarrow> pynum \<Rightarrow> bool" where
  "now_greater now last_time =
     (case last_time of
        PyInt n \<Rightarrow> of_int n < now
      | PyFloat x \<Rightarrow> float_less x (Fin now))"

definition now_minus :: "real \<Rightarrow> pynum \<Rightarrow> py_error + pyfloat" where
  "now_minus now last_time =
     (case last_time of
        PyInt n \<Rightarrow>
          (case float_of_int n of Inl e \<Rightarrow> Inl e | Inr x \<Rightarrow> Inr (float_sub (Fin now) x))
      | PyFloat x \<Rightarrow> Inr (float_sub (Fin now) x))"

definition int_minus :: "int \<Rightarrow> pynum \<Rightarrow> py_error + pynum" where
  "int_minus current_requests last_requests =
     (case last_requests of
        PyInt n \<Rightarrow> Inr (PyInt (current_requests - n))
      | PyFloat x \<Rightarrow>
          (case float_of_int current_requests of
             Inl e \<Rightarrow> Inl e
           | Inr c \<Rightarrow> Inr (PyFloat (float_sub c x))))"

definition negative :: "pynum \<Rightarrow> bool" where
  "negative d = (case d of PyInt n \<Rightarrow> n < 0 | PyFloat x \<Rightarrow> float_less x (Fin 0))"

definition py_truediv_float :: "pynum \<Rightarrow> pyfloat \<Rightarrow> py_error + pyfloat" where
  "py_truediv_float d elapsed =
     (case d of
        PyInt n \<Rightarrow>
          (case float_of_int n of Inl e \<Rightarrow> Inl e | Inr x \<Rightarrow> float_div x elapsed)
      | PyFloat x \<Rightarrow> float_div x elapsed)"

text \<open>The division of \<open>get_top_mem_info\<close>, on finite floats read from the output of
  \<open>top\<close>.\<close>

definition py_truediv :: "real \<Rightarrow> real \<Rightarrow> py_error + real" where
  "py_truediv a b = (if b = 0 then Inl ZeroDivisionError else Inr (a / b))"

text \<open>The body of the \<open>try\<close> block that reads the previous state: \<open>(last_requests,
  last_time)\<close>.\<close>

definition load_state :: "file_read \<Rightarrow> real \<Rightarrow> py_error + (json \<times> json)" where
  "load_state content now =
     (case content of
        ReadRaises e \<Rightarrow> Inl e
      | Malformed \<Rightarrow> Inl JSONDecodeError
      | Parsed state \<Rightarrow>
          (case state of
             JObject kvs \<Rightarrow>
               Inr (dict_get kvs ''last_requests'' (JInt 0),
                    dict_get kvs ''last_time'' (JFloat (Fin now)))
           | _ \<Rightarrow> Inl AttributeError))"

text \<open>
  \<open>with open(STATE_FILE, 'w') as f: json.dump({"last_requests": current_requests,
  "last_time": now}, f)\<close>. The encoder renders the counter with \<open>int.__repr__\<close>, which
  raises \<open>ValueError\<close> for an \<open>int\<close> of more than \<open>int_max_str_digits\<close> decimal
  digits; the file is then left with the text written so far, which is not JSON.
  Otherwise the file holds the two numbers (the file system is taken to accept the
  write).
\<close>

definition json_dump_state :: "int \<Rightarrow> real \<Rightarrow> py_error + state_file" where
  "json_dump_state current_requests now =
     (if 10 ^ int_max_str_digits \<le> \<bar>current_requests\<bar> then Inl ValueError
      else Inr (saved_state current_requests now))"

text \<open>
  \<open>compute_requests_per_second(current_requests)\<close>, the same in all five scripts. The
  state file and the clock reading \<open>now = time.time()\<close> are arguments; the result is
  the rate and the state file the call leaves behind. A call that raises before the
  final \<open>json.dump\<close> leaves the state file as it was.
\<close>

definition compute_requests_per_second ::
    "state_file \<Rightarrow> int \<Rightarrow> real \<Rightarrow> py_error + (pyfloat \<times> state_file)" where
  "compute_requests_per_second store current_requests now =
     (case store of
        NoFile \<Rightarrow>
          (case json_dump_state current_requests now of
             Inl e \<Rightarrow> Inl e
           | Inr store' \<Rightarrow> Inr (Fin 0, store'))
      | StateFile content \<Rightarrow>
          (case catch {JSONDecodeError, FileNotFoundError} (load_state content now)
                  (JInt current_requests, JFloat (Fin now)) of
             Inl e \<Rightarrow> Inl e
           | Inr (last_requests, last_time) \<Rightarrow>
               (case as_number last_time of
                  Inl e \<Rightarrow> Inl e
                | Inr lt \<Rightarrow>
                    (case (if now_greater now lt then now_minus now lt else Inr (Fin 1)) of
                       Inl e \<Rightarrow> Inl e
                     | Inr elapsed \<Rightarrow>
                         (case as_number last_requests of
                            Inl e \<Rightarrow> Inl e
                          | Inr lr \<Rightarrow>
                              (case int_minus current_requests lr of
                                 Inl e \<Rightarrow> Inl e
                               | Inr diff \<Rightarrow>
                                   (let diff_requests = (if negative diff then PyInt 0 else diff)
                                    in case py_truediv_float diff_requests elapsed of
                                         Inl e \<Rightarrow> Inl e
                                       | Inr rps \<Rightarrow>
                                           (case json_dump_state current_requests now of
                                              Inl e \<Rightarrow> Inl e
                                            | Inr store' \<Rightarrow> Inr (rps, store')))))))))"

text \<open>
  For the statements below: the value of \<open>elapsed\<close> when the stored time is the float
  \<open>lt\<close>, and the floats that are at least zero (NaN is not).
\<close>

definition elapsed_of :: "real \<Rightarrow> pyfloat \<Rightarrow> pyfloat" where
  "elapsed_of now lt = (if float_less lt (Fin now) then float_sub (Fin now) lt else Fin 1)"



section \<open>The sampler: top processes by a metric\<close>

text \<open>
  One process as an enumeration of \<open>psutil.process_iter\<close> shows it to the scripts: the
  entries of \<open>proc.info\<close> (\<open>None\<close> when psutil could not read the attribute) and the
  outcome of the calls \<open>proc.cpu_percent(None)\<close> and \<open>proc.memory_percent()\<close>, which raise
  one of the three psutil exceptions when the process is gone, inaccessible or a zombie.
\<close>

datatype psutil_error = NoSuchProcess | AccessDenied | ZombieProcess

record process =
  info_name :: "string option"
  info_memory_percent :: "real option"
  cpu_percent :: "psutil_error + real"
  memory_percent :: "psutil_error + real"

text \<open>\<open>proc.info['name'] if proc.info['name'] else "-."\<close>.\<close>

definition sample_name :: "process \<Rightarrow> string" where
  "sample_name proc =
     (case info_name proc of None \<Rightarrow> ''-.'' | Some name \<Rightarrow> if name = [] then ''-.'' else name)"

text \<open>The body of the enumeration loop with its handler, for the three metrics read by
  the scripts: \<open>proc.cpu_percent(None)\<close>, \<open>proc.memory_percent()\<close>
  (\<^verbatim>\<open>t_scrape_metrics_psutil.py\<close>) and \<open>proc.info['memory_percent']\<close>
  (\<^verbatim>\<open>scrape_metrics_psutil_reduced.py\<close>).\<close>

definition cpu_sample :: "process \<Rightarrow> string \<times> real" where
  "cpu_sample proc =
     (case cpu_percent proc of
        Inl e \<Rightarrow> (''-.'', 0)
      | Inr cpu_val \<Rightarrow> (sample_name proc, cpu_val))"

definition memory_sample :: "process \<Rightarrow> string \<times> real" where
  "memory_sample proc =
     (case memory_percent proc of
        Inl e \<Rightarrow> (''-.'', 0)
      | Inr mem_pct \<Rightarrow> (sample_name proc, mem_pct))"

definition info_memory_sample :: "process \<Rightarrow> string \<times> real" where
  "info_memory_sample proc =
     (sample_name proc,
      (case info_memory_percent proc of None \<Rightarrow> 0 | Some m \<Rightarrow> if m = 0 then 0 else m))"

text \<open>
  \<open>processes.sort(key=lambda x: x[1], reverse=True)\<close>. Python's sort is stable, with
  \<open>reverse=True\<close> too: the list is ordered by descending key and elements of equal key
  keep their order. That is the stable insertion sort on the negated key.
\<close>

definition sort_by_value_desc :: "(string \<times> real) list \<Rightarrow> (string \<times> real) list" where
  "sort_by_value_desc processes = sort_key (\<lambda>x. - snd x) processes"

text \<open>The last two statements of every \<open>get_top_processes_by_*\<close>: sort, then
  \<open>return processes[:n]\<close>. The count \<open>n\<close> is a natural number (the scripts pass 5).\<close>

definition top_n :: "nat \<Rightarrow> (string \<times> real) list \<Rightarrow> (string \<times> real) list" where
  "top_n n processes = take n (sort_by_value_desc processes)"

text \<open>
  \<open>get_top_processes_by_cpu\<close> is the same function of the enumeration it reads in
  \<^verbatim>\<open>scrape_metrics_psutil_reduced.py\<close> (single pass) and in \<^verbatim>\<open>t_scrape_metrics_psutil.py\<close>
  (whose first pass and sleep only warm up psutil's counters; \<open>procs\<close> is the second
  enumeration). \<open>get_top_processes_by_memory\<close> differs in how it reads the metric.
\<close>

definition get_top_processes_by_cpu :: "nat \<Rightarrow> process list \<Rightarrow> (string \<times> real) list" where
  "get_top_processes_by_cpu n procs = top_n n (map cpu_sample procs)"

definition get_top_processes_by_memory :: "nat \<Rightarrow> process list \<Rightarrow> (string \<times> real) list" where
  "get_top_processes_by_memory n procs = top_n n (map memory_sample procs)"

definition get_top_processes_by_memory_reduced ::
    "nat \<Rightarrow> process list \<Rightarrow> (string \<times> real) list" where
  "get_top_processes_by_memory_reduced n procs = top_n n (map info_memory_sample procs)"

text \<open>In \<open>main\<close>: \<open>while len(top_cpu) < 5: top_cpu.append(("-.", 0.0))\<close>.\<close>

function pad_loop :: "(string \<times> real) list \<Rightarrow> (string \<times> real) list" where
  "pad_loop entries = (if length entries < 5 then pad_loop (entries @ [(''-.'', 0)]) else entries)"
  by pat_completeness auto
termination
  by (relation "measure (\<lambda>entries. 5 - length entries)") auto

declare pad_loop.simps [simp del]

text \<open>Two processes, one of which exits during the scan.\<close>

definition two_processes :: "process list" where
  "two_processes =
     [\<lparr>info_name = Some ''nginx'', info_memory_percent = Some 1.5,
       cpu_percent = Inr 4.5, memory_percent = Inr 1.5\<rparr>,
      \<lparr>info_name = Some ''python3'', info_memory_percent = Some 0.7,
       cpu_percent = Inl NoSuchProcess, memory_percent = Inl NoSuchProcess\<rparr>]"

text \<open>Seven processes with ties: the three of value \<open>2\<close> keep their order.\<close>

definition seven_processes :: "process list" where
  "seven_processes =
     map (\<lambda>(name, v). \<lparr>info_name = name, info_memory_percent = Some v,
                         cpu_percent = Inr v, memory_percent = Inr v\<rparr>)
       [(Some ''a'', 2), (Some ''b'', 0), (Some ''c'', 7), (Some ''d'', 2),
        (None, 1), (Some ''e'', 2), (Some ''f'', 3)]"

text \<open>The order the claims speak of: the values do not increase along the list.\<close>

definition non_increasing :: "(string \<times> real) list \<Rightarrow> bool" where
  "non_increasing entries = sorted_wrt (\<lambda>a b. snd b \<le> snd a) entries"

text \<open>The entries of value \<open>v\<close>, in their order.\<close>

definition of_value :: "real \<Rightarrow> (string \<times> real) list \<Rightarrow> (string \<times> real) list" where
  "of_value v entries = filter (\<lambda>x. snd x = v) entries"

section \<open>The output record\<close>

text \<open>Decimal text of a natural number and of an integer (\<open>str(n)\<close>). The scripts
  apply it to the connections count, which \<open>int\<close> has read from at most
  \<open>int_max_str_digits\<close> digits, so the length limit of \<open>str\<close> is never met.\<close>

definition digit_char :: "nat \<Rightarrow> char" where
  "digit_char d = ''0123456789'' ! (d mod 10)"

fun str_nat :: "nat \<Rightarrow> string" where
  "str_nat n = (if n < 10 then [digit_char n] else str_nat (n div 10) @ [digit_char (n mod 10)])"

declare str_nat.simps [simp del]

definition str_int :: "int \<Rightarrow> string" where
  "str_int i = (if i < 0 then ''-'' @ str_nat (nat (- i)) else str_nat (nat i))"

text \<open>
  The format specification \<open>.kf\<close> for \<open>k \<ge> 1\<close> (the scripts use \<open>.2f\<close> and \<open>.1f\<close>) on a
  finite value: the exact value is rounded to \<open>k\<close> decimals, ties to even, and a
  negative value keeps its sign even when it rounds to zero.
\<close>

definition round_half_even :: "real \<Rightarrow> int" where
  "round_half_even x =
     (let f = \<lfloor>x\<rfloor>; d = x - of_int f in
      if d < 1 / 2 then f
      else if d > 1 / 2 then f + 1
      else if even f then f else f + 1)"

definition zero_pad :: "nat \<Rightarrow> string \<Rightarrow> string" where
  "zero_pad k s = replicate (k - length s) (CHR ''0'') @ s"

definition format_fixed :: "nat \<Rightarrow> real \<Rightarrow> string" where
  "format_fixed k x =
     (let n = nat (round_half_even (\<bar>x\<bar> * 10 ^ k)) in
      (if x < 0 then ''-'' else []) @ str_nat (n div 10 ^ k) @ ''.''
        @ zero_pad k (str_nat (n mod 10 ^ k)))"

text \<open>The same format on a float of the rate tracker: \<open>inf\<close>, \<open>-inf\<close> and \<open>nan\<close> are
  what Python prints for the values that are not finite.\<close>

definition format_float :: "nat \<Rightarrow> pyfloat \<Rightarrow> string" where
  "format_float k x =
     (case x of
        Fin r \<Rightarrow> format_fixed k r
      | PInf \<Rightarrow> ''inf''
      | NInf \<Rightarrow> ''-inf''
      | NaN \<Rightarrow> ''nan'')"

text \<open>
  The loops that turn the five pairs into ten columns. In
  \<^verbatim>\<open>scrape_metrics_psutil_reduced.py\<close> the name is written as it is; in
  \<^verbatim>\<open>t_scrape_metrics_psutil.py\<close> an empty name is written as \<open>-.\<close>.
\<close>

definition cols_reduced :: "(string \<times> real) list \<Rightarrow> string list" where
  "cols_reduced entries =
     concat (map (\<lambda>(proc_name, val). [proc_name, format_fixed 2 val]) entries)"

definition cols_two_pass :: "(string \<times> real) list \<Rightarrow> string list" where
  "cols_two_pass entries =
     concat (map (\<lambda>(proc_name, val).
                    [if proc_name = [] then ''-.'' else proc_name, format_fixed 2 val]) entries)"

text \<open>
  What one run observes: the timestamp text of \<open>strftime\<close>, the system-wide
  percentages, the two process enumerations, the outcome of the status request, the
  state file and the clock reading of the rate tracker.
\<close>

record observation =
  timestamp :: string
  cpu_usage :: real
  mem_usage :: real
  cpu_procs :: "process list"
  mem_procs :: "process list"
  response :: http_fetch
  state :: state_file
  clock :: real

text \<open>The list \<open>row_data\<close> of \<open>main\<close>, from the values \<open>main\<close> has computed.\<close>

definition row_data :: "string \<Rightarrow> real \<Rightarrow> string list \<Rightarrow> real \<Rightarrow> string list \<Rightarrow> int \<Rightarrow> pyfloat
    \<Rightarrow> string list" where
  "row_data ts cpu cpu_cols mem mem_cols nginx_active_connections nginx_requests_ps =
     [ts, format_fixed 2 cpu] @ cpu_cols @ [format_fixed 2 mem] @ mem_cols
       @ [str_int nginx_active_connections] @ [format_float 2 nginx_requests_ps]"

text \<open>
  \<open>main\<close> of \<^verbatim>\<open>scrape_metrics_psutil_reduced.py\<close>: the line appended to the output file
  (without its final newline) and the state file left behind, or the exception that
  ends the run.
\<close>

definition main_reduced :: "observation \<Rightarrow> py_error + (string \<times> state_file)" where
  "main_reduced obs =
     (let top_cpu = pad_loop (get_top_processes_by_cpu 5 (cpu_procs obs));
          top_mem = pad_loop (get_top_processes_by_memory_reduced 5 (mem_procs obs))
      in case get_nginx_stub_status_reduced (response obs) of
           Inl e \<Rightarrow> Inl e
         | Inr (nginx_active_connections, nginx_total_requests) \<Rightarrow>
             (case compute_requests_per_second (state obs) nginx_total_requests (clock obs) of
                Inl e \<Rightarrow> Inl e
              | Inr (nginx_requests_ps, state') \<Rightarrow>
                  Inr (join '';''
                         (row_data (timestamp obs) (cpu_usage obs) (cols_reduced top_cpu)
                            (mem_usage obs) (cols_reduced top_mem)
                            nginx_active_connections nginx_requests_ps),
                       state')))"

text \<open>\<open>main\<close> of \<^verbatim>\<open>t_scrape_metrics_psutil.py\<close>.\<close>

definition main_two_pass :: "observation \<Rightarrow> py_error + (string \<times> state_file)" where
  "main_two_pass obs =
     (let top_cpu_procs = pad_loop (get_top_processes_by_cpu 5 (cpu_procs obs));
          top_mem_procs = pad_loop (get_top_processes_by_memory 5 (mem_procs obs))
      in case get_nginx_stub_status (response obs) of
           Inl e \<Rightarrow> Inl e
         | Inr (nginx_active_connections, nginx_total_requests) \<Rightarrow>
             (case compute_requests_per_second (state obs) nginx_total_requests (clock obs) of
                Inl e \<Rightarrow> Inl e
              | Inr (nginx_requests_ps, state') \<Rightarrow>
                  Inr (join '';''
                         (row_data (timestamp obs) (cpu_usage obs) (cols_two_pass top_cpu_procs)
                            (mem_usage obs) (cols_two_pass top_mem_procs)
                            nginx_active_connections nginx_requests_ps),
                       state')))"

text \<open>
  \<open>main\<close> of \<^verbatim>\<open>get_metrics_psutil.py\<close>, \<^verbatim>\<open>scrape_metrics_top.py\<close> and
  \<^verbatim>\<open>t_scrape_metrics_top.py\<close>. There \<open>get_top_cpu_info\<close> and \<open>get_top_mem_info\<close> return at
  most five pairs of a command text and a percentage already formatted as text; their
  results are arguments here. The loop \<open>for i in range(5)\<close> fills the missing pairs
  with two empty strings.
\<close>

definition top_fields :: "(string \<times> string) list \<Rightarrow> string list" where
  "top_fields entries =
     concat (map (\<lambda>i. if i < length entries then [fst (entries ! i), snd (entries ! i)] else ['''', ''''])
               [0..<5])"

definition row_items :: "string \<Rightarrow> real \<Rightarrow> (string \<times> string) list \<Rightarrow> real
    \<Rightarrow> (string \<times> string) list \<Rightarrow> int \<Rightarrow> pyfloat \<Rightarrow> string list" where
  "row_items now_str cpu top_cpu mem top_mem nginx_active_connections nginx_requests_ps =
     [now_str, format_fixed 2 cpu] @ top_fields top_cpu @ [format_fixed 2 mem]
       @ top_fields top_mem
       @ [str_int nginx_active_connections, format_float 2 nginx_requests_ps]"

definition main_info ::
    "string \<Rightarrow> real \<Rightarrow> (string \<times> string) list \<Rightarrow> real \<Rightarrow> (string \<times> string) list
     \<Rightarrow> http_fetch \<Rightarrow> state_file \<Rightarrow> real \<Rightarrow> py_error + (string \<times> state_file)" where
  "main_info now_str cpu top_cpu mem top_mem resp store now =
     (case get_nginx_stub_status resp of
        Inl e \<Rightarrow> Inl e
      | Inr (nginx_active_connections, nginx_total_requests) \<Rightarrow>
          (case compute_requests_per_second store nginx_total_requests now of
             Inl e \<Rightarrow> Inl e
           | Inr (nginx_requests_ps, store') \<Rightarrow>
               Inr (join '';''
                      (row_items now_str cpu top_cpu mem top_mem
                         nginx_active_connections nginx_requests_ps),
                    store')))"

text \<open>Observations used as concrete inputs below.\<close>

definition one_process_run :: observation where
  "one_process_run =
     \<lparr>timestamp = ''2025-01-31 12:00:00'', cpu_usage = 12.3, mem_usage = 40,
      cpu_procs = [\<lparr>info_name = Some ''nginx'', info_memory_percent = Some 1.5,
                    cpu_percent = Inr 4.5, memory_percent = Inr 1.5\<rparr>],
      mem_procs = [\<lparr>info_name = Some ''nginx'', info_memory_percent = Some 1.5,
                    cpu_percent = Inr 4.5, memory_percent = Inr 1.5\<rparr>],
      response = Response example_status, state = saved_state 200 90, clock = 100\<rparr>"

definition semicolon_run :: observation where
  "semicolon_run =
     \<lparr>timestamp = ''2025-01-31 12:00:00'', cpu_usage = 12.3, mem_usage = 40,
      cpu_procs = [\<lparr>info_name = Some ''a;b'', info_memory_percent = Some 1.5,
                    cpu_percent = Inr 4.5, memory_percent = Inr 1.5\<rparr>],
      mem_procs = [],
      response = RequestFailed, state = NoFile, clock = 100\<rparr>"

text \<open>The record lines of two of the runs above.\<close>

definition one_process_line :: string where
  "one_process_line = ''2025-01-31 12:00:00;12.30;nginx;4.50;-.;0.00;-.;0.00;-.;0.00;-.;0.00;40.00;nginx;1.50;-.;0.00;-.;0.00;-.;0.00;-.;0.00;5;5.00''"

definition semicolon_line :: string where
  "semicolon_line = ''2025-01-31 12:00:00;12.30;a;b;4.50;-.;0.00;-.;0.00;-.;0.00;-.;0.00;40.00;-.;0.00;-.;0.00;-.;0.00;-.;0.00;-.;0.00;0;0.00''"

section \<open>The process table: \<open>get_top_mem_info\<close> of \<^verbatim>\<open>t_scrape_metrics_top.py\<close>\<close>

text \<open>
  \<open>line.split(None, k)\<close>: at most \<open>k\<close> splits at runs of whitespace; what is left after
  the last split is one field, with its inner and trailing whitespace.
\<close>

fun split_max_ws :: "nat \<Rightarrow> string \<Rightarrow> string \<Rightarrow> string list" where
  "split_max_ws k cur [] = (if cur = [] then [] else [rev cur])"
| "split_max_ws k cur (c # cs) =
     (if cur = [] then
        (if is_space c then split_max_ws k [] cs
         else if k = 0 then [c # cs]
         else split_max_ws k [c] cs)
      else
        (if is_space c then rev cur # split_max_ws (k - 1) [] cs
         else split_max_ws k (c # cur) cs))"

definition py_split_max :: "nat \<Rightarrow> string \<Rightarrow> string list" where
  "py_split_max k s = split_max_ws k [] s"

text \<open>
  The pieces of the pattern
  \<^verbatim>\<open>^MiB Mem\s*:\s*(\S+)\s+total,\s*(\S+)\s+free,\s*(\S+)\s+used,\s*(\S+)\s+buff/cache\<close>
  as \<open>re.match\<close> applies it. Each piece reads from the front of the text and returns
  what is left. The greedy repetitions need no backtracking here: what follows \<open>\s*\<close>
  or \<open>\s+\<close> starts with a character that is not whitespace, and what follows \<open>\S+\<close>
  is \<open>\s+\<close>, so only the longest run can match.
\<close>

definition lit :: "string \<Rightarrow> string \<Rightarrow> string option" where
  "lit p s = (if startswith s p then Some (drop (length p) s) else None)"

definition spaces0 :: "string \<Rightarrow> string" where
  "spaces0 s = dropWhile is_space s"

definition spaces1 :: "string \<Rightarrow> string option" where
  "spaces1 s =
     (case s of [] \<Rightarrow> None | c # r \<Rightarrow> if is_space c then Some (dropWhile is_space r) else None)"

definition word1 :: "string \<Rightarrow> (string \<times> string) option" where
  "word1 s =
     (let w = takeWhile (\<lambda>c. \<not> is_space c) s in
      if w = [] then None else Some (w, dropWhile (\<lambda>c. \<not> is_space c) s))"

text \<open>\<^verbatim>\<open>\s*(\S+)\s+\<close> followed by a literal label: the group and the rest.\<close>

definition group_then :: "string \<Rightarrow> string \<Rightarrow> (string \<times> string) option" where
  "group_then label s =
     (case word1 (spaces0 s) of
        None \<Rightarrow> None
      | Some (g, r) \<Rightarrow>
          (case spaces1 r of
             None \<Rightarrow> None
           | Some r' \<Rightarrow>
               (case lit label r' of None \<Rightarrow> None | Some r'' \<Rightarrow> Some (g, r''))))"

text \<open>\<open>mem_line_pattern.match(s)\<close>: the four groups, or \<open>None\<close>.\<close>

definition mem_line_match :: "string \<Rightarrow> (string \<times> string \<times> string \<times> string) option" where
  "mem_line_match s =
     (case lit ''MiB Mem'' s of
        None \<Rightarrow> None
      | Some r0 \<Rightarrow>
          (case lit '':'' (spaces0 r0) of
             None \<Rightarrow> None
           | Some r1 \<Rightarrow>
               (case group_then ''total,'' r1 of
                  None \<Rightarrow> None
                | Some (g1, r2) \<Rightarrow>
                    (case group_then ''free,'' r2 of
                       None \<Rightarrow> None
                     | Some (g2, r3) \<Rightarrow>
                         (case group_then ''used,'' r3 of
                            None \<Rightarrow> None
                          | Some (g3, r4) \<Rightarrow>
                              (case group_then ''buff/cache'' r4 of
                                 None \<Rightarrow> None
                               | Some (g4, r5) \<Rightarrow> Some (g1, g2, g3, g4)))))))"

text \<open>
  The body of the \<open>try\<close> block. Python's \<open>float(str)\<close> is an argument \<open>to_float\<close>: it
  returns the number read, or \<open>None\<close> where \<open>float\<close> raises \<open>ValueError\<close>. The division
  raises \<open>ZeroDivisionError\<close> on a zero total.
\<close>

definition mem_try ::
    "(string \<Rightarrow> real option) \<Rightarrow> string \<times> string \<times> string \<times> string \<Rightarrow> py_error + real" where
  "mem_try to_float groups =
     (case groups of (g1, g2, g3, g4) \<Rightarrow>
        (case to_float g1 of
           None \<Rightarrow> Inl ValueError
         | Some total_mib \<Rightarrow>
             (case to_float g2 of
                None \<Rightarrow> Inl ValueError
              | Some free_mib \<Rightarrow>
                  (case to_float g3 of
                     None \<Rightarrow> Inl ValueError
                   | Some used_mib \<Rightarrow>
                       (case to_float g4 of
                          None \<Rightarrow> Inl ValueError
                        | Some buff_mib \<Rightarrow>
                            (case py_truediv used_mib total_mib of
                               Inl e \<Rightarrow> Inl e
                             | Inr q \<Rightarrow> Inr (q * 100)))))))"

text \<open>What one line of the scan does to \<open>mem_usage\<close>: \<open>if match_mem: try ... except
  ValueError: mem_usage = 0.0\<close>.\<close>

definition mem_update :: "(string \<Rightarrow> real option) \<Rightarrow> string \<Rightarrow> real \<Rightarrow> py_error + real" where
  "mem_update to_float line usage =
     (case mem_line_match (strip line) of
        None \<Rightarrow> Inr usage
      | Some groups \<Rightarrow> catch {ValueError} (mem_try to_float groups) 0)"

text \<open>
  The loop \<open>for i, line in enumerate(output)\<close>: it returns \<open>mem_usage\<close> and
  \<open>header_index\<close>, which stays \<open>0\<close> when no line starts with \<open>PID\<close>.
\<close>

fun mem_scan ::
    "(string \<Rightarrow> real option) \<Rightarrow> string list \<Rightarrow> nat \<Rightarrow> real \<Rightarrow> py_error + (real \<times> nat)" where
  "mem_scan to_float [] i usage = Inr (usage, 0)"
| "mem_scan to_float (line # rest) i usage =
     (case mem_update to_float line usage of
        Inl e \<Rightarrow> Inl e
      | Inr usage' \<Rightarrow>
          if startswith (strip line) ''PID'' then Inr (usage', i)
          else mem_scan to_float rest (Suc i) usage')"

text \<open>The loop over \<open>process_lines[:5]\<close>: a row of fewer than 12 columns is skipped.\<close>

fun mem_rows :: "string list \<Rightarrow> (string \<times> string) list" where
  "mem_rows [] = []"
| "mem_rows (line # rest) =
     (let cols = py_split_max 11 line in
      if length cols < 12 then mem_rows rest
      else (cols ! 11, cols ! 9) # mem_rows rest)"

text \<open>\<open>get_top_mem_info\<close>, from the lines of the output of \<open>top\<close>: the pair of
  \<open>mem_usage\<close> and \<open>top_mem\<close>.\<close>

definition get_top_mem_info ::
    "(string \<Rightarrow> real option) \<Rightarrow> string list \<Rightarrow> py_error + (real \<times> (string \<times> string) list)" where
  "get_top_mem_info to_float output =
     (case mem_scan to_float output 0 0 of
        Inl e \<Rightarrow> Inl e
      | Inr (usage, header_idx) \<Rightarrow>
          Inr (usage, mem_rows (take 5 (drop (header_idx + 1) output))))"

text \<open>
  For the statements below: the header test, the lines the scan reads before the
  header, the summary lines among them, the index of the header, and the rows parsed
  after it.
\<close>

definition is_header :: "string \<Rightarrow> bool" where
  "is_header line = startswith (strip line) ''PID''"

definition before_header :: "string list \<Rightarrow> string list" where
  "before_header output = takeWhile (\<lambda>l. \<not> is_header l) output"

definition is_summary :: "string \<Rightarrow> bool" where
  "is_summary line = (mem_line_match (strip line) \<noteq> None)"

definition summary_lines :: "string list \<Rightarrow> string list" where
  "summary_lines output = filter is_summary (before_header output)"

definition header_index :: "string list \<Rightarrow> nat" where
  "header_index output =
     (if list_ex is_header output then length (before_header output) else 0)"

text \<open>The value of \<open>mem_usage\<close> after the scan has read the given lines, or the
  exception that one of them raises.\<close>

fun scan_value :: "(string \<Rightarrow> real option) \<Rightarrow> string list \<Rightarrow> real \<Rightarrow> py_error + real" where
  "scan_value to_float [] usage = Inr usage"
| "scan_value to_float (line # rest) usage =
     (case mem_update to_float line usage of
        Inl e \<Rightarrow> Inl e
      | Inr usage' \<Rightarrow> scan_value to_float rest usage')"

definition process_rows :: "string list \<Rightarrow> (string \<times> string) list" where
  "process_rows output = mem_rows (take 5 (drop (header_index output + 1) output))"

text \<open>
  A reading of the plain decimal literals \<open>digits\<close> and \<open>digits.digits\<close>, on which
  \<open>float\<close> gives the same number; it stands for \<open>float\<close> where an example is evaluated.
\<close>

definition decimal_float :: "string \<Rightarrow> real option" where
  "decimal_float s =
     (case split_on (CHR ''.'') s of
        [ip] \<Rightarrow> map_option real (int_digits 0 False ip)
      | [ip, fp] \<Rightarrow>
          (case (int_digits 0 False ip, int_digits 0 False fp) of
             (Some a, Some b) \<Rightarrow>
               Some (real a + real b / 10 ^ length (filter (\<lambda>c. c \<noteq> CHR ''_'') fp))
           | _ \<Rightarrow> None)
      | _ \<Rightarrow> None)"

text \<open>Outputs of \<open>top\<close> used as concrete inputs: a 16000 MiB machine with 4000 MiB
  used, the same with a total of zero, one without the summary line, and one whose
  summary line uses a decimal comma.\<close>

definition top_header :: string where
  "top_header = ''    PID USER      PR  NI    VIRT    RES    SHR S  %CPU  %MEM     TIME+ COMMAND''"

definition top_row :: string where
  "top_row = ''      1 root      20   0  167000  11000   8000 S   0.0   0.1   0:01.00 /sbin/init splash''"

definition mem_summary_line :: string where
  "mem_summary_line = ''MiB Mem :  16000.0 total,  12000.0 free,   4000.0 used,      0.0 buff/cache''"

definition zero_summary_line :: string where
  "zero_summary_line = ''MiB Mem :      0.0 total,      0.0 free,      0.0 used,      0.0 buff/cache''"

definition comma_summary_line :: string where
  "comma_summary_line = ''MiB Mem :  16000,0 total,  12000,0 free,   4000,0 used,      0,0 buff/cache''"

definition top_output :: "string list" where
  "top_output =
     [''Tasks:   1 total,   1 running'',
      mem_summary_line,
      ''MiB Swap:      0.0 total,      0.0 free,      0.0 used.  12000.0 avail Mem'',
      '''', top_header, top_row]"

definition zero_total_output :: "string list" where
  "zero_total_output =
     [''Tasks:   1 total,   1 running'',
      zero_summary_line,
      ''MiB Swap:      0.0 total,      0.0 free,      0.0 used.      0.0 avail Mem'',
      '''', top_header, top_row]"

definition no_summary_output :: "string list" where
  "no_summary_output =
     [''Tasks:   1 total,   1 running'',
      ''GiB Mem :     15.6 total,     11.7 free,      3.9 used,      0.0 buff/cache'',
      '''', top_header, top_row]"

definition comma_output :: "string list" where
  "comma_output =
     [comma_summary_line,
      '''', top_header, top_row]"

section \<open>Facts about the string functions\<close>

lemmas string_defs = strip_def lstrip_def rstrip_def is_space_def startswith_def
  py_split_def py_int_def is_int_space_def int_literal_def int_max_str_digits_def
  digit_value_def py_index_def catch_def

lemma py_int_error: "py_int s = Inl e \<Longrightarrow> e = ValueError"
  unfolding py_int_def by (auto split: list.splits option.splits if_splits)

lemma catch_Inr:
  assumes "\<And>e. body = Inl e \<Longrightarrow> e \<in> H"
  shows "\<exists>v. catch H body d = Inr v"
  using assms by (cases body) (auto simp: catch_def)

lemma split_on_nonempty: "split_on sep s \<noteq> []"
  by (induction s) (auto split: list.splits)

lemma split_ws_spaces:
  "\<forall>c\<in>set ws. is_space c \<Longrightarrow> split_ws cur ws = (if cur = [] then [] else [rev cur])"
  by (induction ws arbitrary: cur) auto

lemma split_ws_space_suffix:
  "\<forall>c\<in>set ws. is_space c \<Longrightarrow> split_ws cur (s @ ws) = split_ws cur s"
  by (induction s arbitrary: cur) (auto simp: split_ws_spaces)

lemma split_ws_dropWhile: "split_ws [] (dropWhile is_space s) = split_ws [] s"
  by (induction s) auto

lemma rstrip_decomp: "s = rstrip s @ rev (takeWhile is_space (rev s))"
proof -
  have "rev (takeWhile is_space (rev s) @ dropWhile is_space (rev s)) = s" by simp
  then show ?thesis unfolding rstrip_def rev_append by simp
qed

lemma py_split_rstrip: "py_split (rstrip s) = py_split s"
proof -
  have "\<forall>c\<in>set (rev (takeWhile is_space (rev s))). is_space c"
    by (auto dest: set_takeWhileD)
  then have "split_ws [] (rstrip s @ rev (takeWhile is_space (rev s))) = split_ws [] (rstrip s)"
    by (rule split_ws_space_suffix)
  then show ?thesis using rstrip_decomp[of s] by (simp add: py_split_def)
qed

lemma py_split_strip: "py_split (strip s) = py_split s"
  by (simp add: strip_def py_split_rstrip lstrip_def) (simp add: py_split_def split_ws_dropWhile)

lemma split_ws_token:
  "\<forall>c\<in>set w. \<not> is_space c \<Longrightarrow> cur @ w \<noteq> [] \<Longrightarrow> split_ws cur w = [rev cur @ w]"
  by (induction w arbitrary: cur) auto

section \<open>The status parse\<close>

lemmas status_defs = get_nginx_stub_status_def get_nginx_stub_status_reduced_def
  parse_active_connections_def parse_total_requests_def total_try_def status_lines_def
  active_line_def

lemma active_loop_error: "active_loop ls a = Inl e \<Longrightarrow> e = ValueError"
  by (induction ls) (auto simp: Let_def dest: py_int_error split: if_splits)

lemma total_try_error: "total_try ls t = Inl e \<Longrightarrow> e = ValueError \<or> e = IndexError"
  by (auto simp: total_try_def py_index_def Let_def dest: py_int_error split: if_splits)

lemma parse_active_connections_Inr: "\<exists>v. parse_active_connections ls = Inr v"
  unfolding parse_active_connections_def by (rule catch_Inr) (auto dest: active_loop_error)

lemma parse_total_requests_Inr: "\<exists>v. parse_total_requests ls = Inr v"
  unfolding parse_total_requests_def by (rule catch_Inr) (auto dest: total_try_error)

lemma status_short:
  assumes "length (status_lines body) < 3"
  shows "get_nginx_stub_status (Response body) = Inr (0, 0)"
  using assms by (simp add: get_nginx_stub_status_def status_lines_def Let_def)

lemma status_long:
  assumes "3 \<le> length (status_lines body)"
  shows "get_nginx_stub_status (Response body) =
     (case parse_active_connections (status_lines body) of
        Inl e \<Rightarrow> Inl e
      | Inr a \<Rightarrow>
          (case parse_total_requests (status_lines body) of
             Inl e \<Rightarrow> Inl e
           | Inr t \<Rightarrow> Inr (a, t)))"
proof -
  have "strip body \<noteq> []" using assms by (auto simp: status_lines_def)
  then show ?thesis using assms
    unfolding get_nginx_stub_status_def status_lines_def Let_def by simp
qed

lemma status_fields:
  assumes "3 \<le> length (status_lines body)"
  shows "\<exists>a t. parse_active_connections (status_lines body) = Inr a \<and>
               parse_total_requests (status_lines body) = Inr t \<and>
               get_nginx_stub_status (Response body) = Inr (a, t)"
proof -
  obtain a where a: "parse_active_connections (status_lines body) = Inr a"
    using parse_active_connections_Inr by blast
  obtain t where t: "parse_total_requests (status_lines body) = Inr t"
    using parse_total_requests_Inr by blast
  show ?thesis using a t by (simp add: status_long[OF assms])
qed

lemma status_never_raises: "\<exists>a t. get_nginx_stub_status resp = Inr (a, t)"
proof (cases resp)
  case RequestFailed
  then show ?thesis by (simp add: get_nginx_stub_status_def)
next
  case (Response body)
  show ?thesis
  proof (cases "3 \<le> length (status_lines body)")
    case True
    then show ?thesis using status_fields[of body] Response by blast
  next
    case False
    then show ?thesis using status_short[of body] Response by simp
  qed
qed

lemma active_loop_reduced_eq: "active_loop_reduced ls 0 = parse_active_connections ls"
proof (induction ls)
  case Nil
  show ?case by (simp add: parse_active_connections_def catch_def)
next
  case (Cons l ls)
  show ?case
  proof (cases "startswith l ''Active connections:''")
    case True
    then show ?thesis
      by (auto simp: parse_active_connections_def Let_def catch_def py_index_def
               split: sum.splits)
  next
    case False
    then show ?thesis using Cons by (simp add: parse_active_connections_def)
  qed
qed

lemma status_reduced_eq: "get_nginx_stub_status_reduced resp = get_nginx_stub_status resp"
proof (cases resp)
  case RequestFailed
  then show ?thesis by (simp add: get_nginx_stub_status_def get_nginx_stub_status_reduced_def)
next
  case (Response body)
  show ?thesis
  proof (cases "strip body = []")
    case True
    then show ?thesis using Response
      by (simp add: get_nginx_stub_status_def get_nginx_stub_status_reduced_def)
  next
    case False
    then show ?thesis using Response
      by (simp add: get_nginx_stub_status_def get_nginx_stub_status_reduced_def Let_def
            active_loop_reduced_eq)
  qed
qed

lemma active_loop_find:
  "active_loop ls a =
     (case find active_line ls of
        None \<Rightarrow> Inr a
      | Some l \<Rightarrow> if 3 \<le> length (py_split l) then py_int (py_split l ! 2) else Inr a)"
  by (induction ls) (auto simp: active_line_def Let_def)

lemma parse_active_missing:
  "find active_line ls = None \<Longrightarrow> parse_active_connections ls = Inr 0"
  by (simp add: parse_active_connections_def active_loop_find catch_def)

lemma parse_active_malformed:
  assumes "find active_line ls = Some l"
    and "length (py_split l) < 3 \<or> py_int (py_split l ! 2) = Inl ValueError"
  shows "parse_active_connections ls = Inr 0"
  using assms by (auto simp: parse_active_connections_def active_loop_find catch_def)

lemma total_try_third:
  assumes "3 \<le> length ls"
  shows "total_try ls t =
     (if length (py_split (ls ! 2)) = 3 then py_int (py_split (ls ! 2) ! 2) else Inr t)"
  using assms by (simp add: total_try_def py_index_def Let_def py_split_strip)

lemma parse_total_malformed:
  assumes "3 \<le> length ls"
    and "length (py_split (ls ! 2)) \<noteq> 3 \<or> py_int (py_split (ls ! 2) ! 2) = Inl ValueError"
  shows "parse_total_requests ls = Inr 0"
  using assms by (auto simp: parse_total_requests_def total_try_third catch_def)

lemma py_split_active_line:
  "py_split (''Active connections: '' @ rest) = ''Active'' # ''connections:'' # py_split rest"
  by (simp add: py_split_def is_space_def)

section \<open>The rate tracker\<close>

lemmas rate_defs = compute_requests_per_second_def load_state_def saved_state_def rate_state_def
  json_dump_state_def
  dict_get_def as_number_def catch_def now_greater_def now_minus_def int_minus_def
  negative_def py_truediv_float_def float_of_int_def

lemma float_bound_pos: "0 < float_bound"
proof -
  have "(2::real) ^ 970 < 2 ^ 1024" by (rule power_strict_increasing) simp_all
  then show ?thesis by (simp add: float_bound_def)
qed

lemma fl_Fin: "- float_bound < r \<Longrightarrow> r < float_bound \<Longrightarrow> fl r = Fin r"
  by (simp add: fl_def)

lemma fl_zero: "fl 0 = Fin 0"
  using float_bound_pos by (simp add: fl_def)



lemma json_dump_ok:
  "\<bar>c\<bar> < 10 ^ int_max_str_digits \<Longrightarrow> json_dump_state c now = Inr (saved_state c now)"
  by (simp add: json_dump_state_def)



lemma small_counter: "\<bar>c\<bar> < 10 ^ 18 \<Longrightarrow> \<bar>c::int\<bar> < 10 ^ int_max_str_digits"
proof -
  have "(10::int) ^ 18 \<le> 10 ^ int_max_str_digits"
    by (rule power_increasing) (simp_all add: int_max_str_digits_def)
  then show "\<bar>c\<bar> < 10 ^ 18 \<Longrightarrow> \<bar>c\<bar> < 10 ^ int_max_str_digits" by simp
qed


lemma compute_rate_state:
  "compute_requests_per_second (rate_state c0 lt) c now =
     (case py_truediv_float (if c < c0 then PyInt 0 else PyInt (c - c0)) (elapsed_of now lt) of
        Inl e \<Rightarrow> Inl e
      | Inr r \<Rightarrow>
          (case json_dump_state c now of Inl e \<Rightarrow> Inl e | Inr s \<Rightarrow> Inr (r, s)))"
  by (simp add: compute_requests_per_second_def load_state_def rate_state_def dict_get_def
        as_number_def catch_def now_greater_def now_minus_def int_minus_def negative_def
        elapsed_of_def Let_def)










lemma compute_saved_rate:
  assumes "c0 \<le> c" and "t0 < now" and "of_int (c - c0) < float_bound"
    and "now - t0 < float_bound" and "of_int (c - c0) / (now - t0) < float_bound"
    and "\<bar>c\<bar> < 10 ^ int_max_str_digits"
  shows "compute_requests_per_second (saved_state c0 t0) c now =
           Inr (Fin (of_int (c - c0) / (now - t0)), saved_state c now)"
proof -
  have e: "elapsed_of now (Fin t0) = Fin (now - t0)"
    using assms(2,4) float_bound_pos by (simp add: elapsed_of_def fl_def)
  have d: "\<not> float_bound \<le> \<bar>real_of_int (c - c0)\<bar>" using assms(1,3) by simp
  have q: "fl (of_int (c - c0) / (now - t0)) = Fin (of_int (c - c0) / (now - t0))"
  proof (rule fl_Fin)
    have "0 \<le> real_of_int (c - c0) / (now - t0)" using assms(1,2) by simp
    then show "- float_bound < real_of_int (c - c0) / (now - t0)"
      using float_bound_pos by linarith
    show "real_of_int (c - c0) / (now - t0) < float_bound" by (rule assms(5))
  qed
  show ?thesis
    using assms(1,2) d q json_dump_ok[OF assms(6)]
    by (simp add: saved_state_def compute_rate_state e py_truediv_float_def float_of_int_def)
qed

lemma compute_fresh:
  "\<bar>c\<bar> < 10 ^ int_max_str_digits \<Longrightarrow>
   compute_requests_per_second NoFile c now = Inr (Fin 0, saved_state c now)"
  by (simp add: compute_requests_per_second_def json_dump_ok)

lemma compute_absorbed:
  assumes "load_state content now = Inl e" and "e = JSONDecodeError \<or> e = FileNotFoundError"
  shows "compute_requests_per_second (StateFile content) c now =
           (case json_dump_state c now of Inl e \<Rightarrow> Inl e | Inr s \<Rightarrow> Inr (Fin 0, s))"
  using assms float_bound_pos
  by (auto simp: compute_requests_per_second_def catch_def as_number_def now_greater_def
        int_minus_def negative_def py_truediv_float_def float_of_int_def fl_zero)



lemma small_float: "r < 10 ^ 18 \<Longrightarrow> r < float_bound"
proof -
  have "(10::real) ^ 18 \<le> float_bound" by (simp add: float_bound_def)
  then show "r < 10 ^ 18 \<Longrightarrow> r < float_bound" by simp
qed


section \<open>The sampler\<close>

lemmas sampler_defs = get_top_processes_by_cpu_def get_top_processes_by_memory_def
  get_top_processes_by_memory_reduced_def top_n_def sort_by_value_desc_def cpu_sample_def
  memory_sample_def info_memory_sample_def sample_name_def non_increasing_def of_value_def

lemma sort_by_value_desc_sorted: "non_increasing (sort_by_value_desc xs)"
proof -
  have "sorted (map (\<lambda>x. - snd x) (sort_key (\<lambda>x. - snd x) xs))" by (rule sorted_sort_key)
  then show ?thesis
    by (simp add: non_increasing_def sort_by_value_desc_def sorted_map)
qed

lemma sort_by_value_desc_stable: "of_value v (sort_by_value_desc xs) = of_value v xs"
  using sort_key_stable[of "\<lambda>x. - snd x" "- v" xs]
  by (simp add: of_value_def sort_by_value_desc_def)

lemma top_n_length: "length (top_n n xs) = min n (length xs)"
  by (simp add: top_n_def sort_by_value_desc_def)

lemma top_n_sorted: "non_increasing (top_n n xs)"
  using sort_by_value_desc_sorted[of xs]
  by (simp add: top_n_def non_increasing_def sorted_wrt_take)

lemma top_n_ties: "prefix (of_value v (top_n n xs)) (of_value v xs)"
proof -
  have "prefix (take n (sort_by_value_desc xs)) (sort_by_value_desc xs)"
    by (rule take_is_prefix)
  then have "prefix (of_value v (take n (sort_by_value_desc xs))) (of_value v (sort_by_value_desc xs))"
    unfolding of_value_def by (rule filter_mono_prefix)
  then show ?thesis by (simp add: top_n_def sort_by_value_desc_stable)
qed

lemma pad_loop_eq: "pad_loop xs = xs @ replicate (5 - length xs) (''-.'', 0)"
proof (induction xs rule: pad_loop.induct)
  case (1 entries)
  show ?case
  proof (cases "length entries < 5")
    case True
    then have "5 - length entries = Suc (5 - length (entries @ [(''-.'', 0::real)]))" by simp
    then show ?thesis using 1 True by (simp add: pad_loop.simps[of entries])
  next
    case False
    then show ?thesis by (simp add: pad_loop.simps[of entries])
  qed
qed

lemma replicate_non_increasing: "non_increasing (replicate k s)"
  by (induction k) (auto simp: non_increasing_def)

lemma replicate_three: "replicate 3 x = [x, x, x]"
  by (simp add: numeral_3_eq_3)

lemma pad_loop_sorted:
  assumes "non_increasing xs" and "\<forall>x\<in>set xs. 0 \<le> snd x"
  shows "non_increasing (pad_loop xs)"
  using assms replicate_non_increasing[of "5 - length xs" "(''-.'', 0)"]
  by (auto simp: pad_loop_eq non_increasing_def sorted_wrt_append)

lemma top_n_subset: "set (top_n n xs) \<subseteq> set xs"
  by (auto simp: top_n_def sort_by_value_desc_def dest: in_set_takeD)

section \<open>The output record\<close>

lemmas format_defs = format_fixed_def format_float_def round_half_even_def zero_pad_def
  digit_char_def str_int_def cols_reduced_def cols_two_pass_def row_data_def row_items_def top_fields_def

lemma split_on_no_sep: "sep \<notin> set s \<Longrightarrow> split_on sep s = [s]"
  by (induction s) auto

lemma split_on_append_sep: "sep \<notin> set s \<Longrightarrow> split_on sep (s @ sep # r) = s # split_on sep r"
  by (induction s) (auto split: list.splits)

lemma digit_char_in: "digit_char d \<in> set ''0123456789''"
proof -
  have "d mod 10 < length ''0123456789''" by simp
  then show ?thesis unfolding digit_char_def by (rule nth_mem)
qed

lemma str_nat_digits: "set (str_nat n) \<subseteq> set ''0123456789''"
proof (induction n rule: str_nat.induct)
  case (1 n)
  show ?case
  proof (cases "n < 10")
    case True
    then show ?thesis using digit_char_in[of n] by (simp add: str_nat.simps[of n])
  next
    case False
    then show ?thesis using 1 digit_char_in[of "n mod 10"] by (simp add: str_nat.simps[of n])
  qed
qed

lemma format_fixed_zero: "format_fixed 2 0 = ''0.00''"
  by (simp add: format_fixed_def round_half_even_def zero_pad_def str_nat.simps digit_char_def)

lemma cols_reduced_length: "length (cols_reduced xs) = 2 * length xs"
  by (induction xs) (auto simp: cols_reduced_def)

lemma cols_reduced_append: "cols_reduced (xs @ ys) = cols_reduced xs @ cols_reduced ys"
  by (simp add: cols_reduced_def)

lemma upt_5: "[0..<5] = [0, 1, 2, 3, 4]"
  by (simp add: upt_rec)

lemma str_nat_no_semicolon: "CHR '';'' \<notin> set (str_nat n)"
proof
  assume "CHR '';'' \<in> set (str_nat n)"
  then have "CHR '';'' \<in> set ''0123456789''" using str_nat_digits[of n] by (rule subsetD[rotated])
  then show False by simp
qed

lemma format_fixed_no_semicolon: "CHR '';'' \<notin> set (format_fixed k x)"
  by (simp add: format_fixed_def zero_pad_def Let_def str_nat_no_semicolon)

lemma str_int_no_semicolon: "CHR '';'' \<notin> set (str_int i)"
  by (simp add: str_int_def str_nat_no_semicolon)

lemma format_float_no_semicolon: "CHR '';'' \<notin> set (format_float k x)"
  by (cases x) (simp_all add: format_float_def format_fixed_no_semicolon)

lemma cols_reduced_sentinels:
  "cols_reduced (replicate k (''-.'', 0)) = concat (replicate k [''-.'', ''0.00''])"
  by (induction k) (simp_all add: cols_reduced_def format_fixed_zero)

lemma cols_reduced_no_semicolon:
  assumes "\<forall>x\<in>set xs. CHR '';'' \<notin> set (fst x)"
  shows "\<forall>f\<in>set (cols_reduced xs). CHR '';'' \<notin> set f"
  using assms by (induction xs) (auto simp: cols_reduced_def format_fixed_no_semicolon)

lemma split_on_join:
  assumes "xs \<noteq> []" and "\<forall>x\<in>set xs. sep \<notin> set x"
  shows "split_on sep (join [sep] xs) = xs"
  using assms
proof (induction xs)
  case Nil
  then show ?case by simp
next
  case (Cons x xs)
  show ?case
  proof (cases xs)
    case Nil
    then show ?thesis using Cons.prems by (simp add: split_on_no_sep)
  next
    case (Cons y ys)
    then have "split_on sep (join [sep] xs) = xs" using Cons.IH Cons.prems by simp
    then show ?thesis using Cons Cons.prems by (simp add: split_on_append_sep)
  qed
qed

lemma top_fields_eq:
  "top_fields entries =
     concat (map (\<lambda>x. [fst x, snd x]) (take 5 entries))
       @ concat (replicate (5 - length entries) ['''', ''''])"
proof -
  consider "entries = []" | a where "entries = [a]" | a b where "entries = [a, b]"
    | a b c where "entries = [a, b, c]" | a b c d where "entries = [a, b, c, d]"
    | a b c d e r where "entries = a # b # c # d # e # r"
    by (cases entries; cases "tl entries"; cases "tl (tl entries)"; cases "tl (tl (tl entries))";
        cases "tl (tl (tl (tl entries)))"; simp)
  then show ?thesis
    by cases (simp_all add: top_fields_def upt_5 eval_nat_numeral)
qed

lemma top_fields_length: "length (top_fields entries) = 10"
  by (simp add: top_fields_def upt_5 if_distrib[of length])

lemma cols_reduced_pad:
  "cols_reduced (pad_loop r) = cols_reduced r @ concat (replicate (5 - length r) [''-.'', ''0.00''])"
  by (simp add: pad_loop_eq cols_reduced_append cols_reduced_sentinels)

lemma pad_top_n_length: "length (pad_loop (top_n 5 xs)) = 5"
  by (simp add: pad_loop_eq top_n_length)

lemma row_data_length:
  "length cpu_cols = 10 \<Longrightarrow> length mem_cols = 10 \<Longrightarrow>
   length (row_data ts c cpu_cols m mem_cols a r) = 25"
  by (simp add: row_data_def)

lemma row_data_split:
  assumes "CHR '';'' \<notin> set ts"
    and "\<forall>f\<in>set cpu_cols. CHR '';'' \<notin> set f"
    and "\<forall>f\<in>set mem_cols. CHR '';'' \<notin> set f"
  shows "split_on (CHR '';'') (join '';'' (row_data ts c cpu_cols m mem_cols a r))
           = row_data ts c cpu_cols m mem_cols a r"
proof (rule split_on_join)
  show "row_data ts c cpu_cols m mem_cols a r \<noteq> []" by (simp add: row_data_def)
  show "\<forall>x\<in>set (row_data ts c cpu_cols m mem_cols a r). CHR '';'' \<notin> set x"
    using assms
    by (auto simp: row_data_def format_fixed_no_semicolon str_int_no_semicolon
          format_float_no_semicolon)
qed

lemma main_reduced_Inr:
  assumes "main_reduced obs = Inr (line, state')"
  shows "\<exists>active total_requests rps.
           get_nginx_stub_status_reduced (response obs) = Inr (active, total_requests) \<and>
           compute_requests_per_second (state obs) total_requests (clock obs) = Inr (rps, state') \<and>
           line = join '';''
             (row_data (timestamp obs) (cpu_usage obs)
                (cols_reduced (pad_loop (get_top_processes_by_cpu 5 (cpu_procs obs))))
                (mem_usage obs)
                (cols_reduced (pad_loop (get_top_processes_by_memory_reduced 5 (mem_procs obs))))
                active rps)"
  using assms unfolding main_reduced_def Let_def
  by (auto split: sum.splits prod.splits)

lemma sample_name_fst:
  "fst (cpu_sample p) = sample_name p \<or> fst (cpu_sample p) = ''-.''"
  "fst (memory_sample p) = sample_name p \<or> fst (memory_sample p) = ''-.''"
  "fst (info_memory_sample p) = sample_name p"
  by (auto simp: cpu_sample_def memory_sample_def info_memory_sample_def split: sum.splits)

lemma padded_names:
  assumes "\<forall>x\<in>set xs. CHR '';'' \<notin> set (fst x)"
  shows "\<forall>x\<in>set (pad_loop (top_n 5 xs)). CHR '';'' \<notin> set (fst x)"
  using assms top_n_subset[of 5 xs] by (auto simp: pad_loop_eq)

lemma cpu_names:
  assumes "\<forall>p\<in>set procs. CHR '';'' \<notin> set (sample_name p)"
  shows "\<forall>x\<in>set (pad_loop (get_top_processes_by_cpu 5 procs)). CHR '';'' \<notin> set (fst x)"
  unfolding get_top_processes_by_cpu_def
proof (rule padded_names)
  show "\<forall>x\<in>set (map cpu_sample procs). CHR '';'' \<notin> set (fst x)"
  proof
    fix x assume "x \<in> set (map cpu_sample procs)"
    then obtain p where p: "p \<in> set procs" "x = cpu_sample p" by auto
    then show "CHR '';'' \<notin> set (fst x)"
      using assms sample_name_fst(1)[of p] by auto
  qed
qed

lemma info_memory_names:
  assumes "\<forall>p\<in>set procs. CHR '';'' \<notin> set (sample_name p)"
  shows "\<forall>x\<in>set (pad_loop (get_top_processes_by_memory_reduced 5 procs)).
           CHR '';'' \<notin> set (fst x)"
  unfolding get_top_processes_by_memory_reduced_def
  by (rule padded_names) (use assms in \<open>auto simp: sample_name_fst(3)\<close>)

lemma padded_cols_length:
  "length (cols_reduced (pad_loop (get_top_processes_by_cpu 5 procs))) = 10"
  "length (cols_reduced (pad_loop (get_top_processes_by_memory_reduced 5 procs))) = 10"
  by (simp_all add: cols_reduced_length get_top_processes_by_cpu_def
        get_top_processes_by_memory_reduced_def pad_top_n_length)

lemma main_reduced_fields:
  assumes "main_reduced obs = Inr (line, state')"
  shows "\<exists>active total_requests rps fields.
           get_nginx_stub_status_reduced (response obs) = Inr (active, total_requests) \<and>
           compute_requests_per_second (state obs) total_requests (clock obs) = Inr (rps, state') \<and>
           fields = row_data (timestamp obs) (cpu_usage obs)
                      (cols_reduced (pad_loop (get_top_processes_by_cpu 5 (cpu_procs obs))))
                      (mem_usage obs)
                      (cols_reduced (pad_loop (get_top_processes_by_memory_reduced 5 (mem_procs obs))))
                      active rps \<and>
           line = join '';'' fields \<and> length fields = 25 \<and>
           (CHR '';'' \<notin> set (timestamp obs) \<and>
            (\<forall>p\<in>set (cpu_procs obs @ mem_procs obs). CHR '';'' \<notin> set (sample_name p))
            \<longrightarrow> split_on (CHR '';'') line = fields)"
proof -
  from main_reduced_Inr[OF assms] obtain active total_requests rps where
    st: "get_nginx_stub_status_reduced (response obs) = Inr (active, total_requests)" and
    rt: "compute_requests_per_second (state obs) total_requests (clock obs) = Inr (rps, state')" and
    ln: "line = join '';''
             (row_data (timestamp obs) (cpu_usage obs)
                (cols_reduced (pad_loop (get_top_processes_by_cpu 5 (cpu_procs obs))))
                (mem_usage obs)
                (cols_reduced (pad_loop (get_top_processes_by_memory_reduced 5 (mem_procs obs))))
                active rps)"
    by blast
  let ?cc = "cols_reduced (pad_loop (get_top_processes_by_cpu 5 (cpu_procs obs)))"
  let ?mc = "cols_reduced (pad_loop (get_top_processes_by_memory_reduced 5 (mem_procs obs)))"
  let ?fields = "row_data (timestamp obs) (cpu_usage obs) ?cc (mem_usage obs) ?mc active rps"
  have len: "length ?fields = 25"
    by (rule row_data_length) (rule padded_cols_length)+
  have split: "split_on (CHR '';'') line = ?fields"
    if "CHR '';'' \<notin> set (timestamp obs) \<and>
        (\<forall>p\<in>set (cpu_procs obs @ mem_procs obs). CHR '';'' \<notin> set (sample_name p))"
  proof -
    have c: "\<forall>f\<in>set ?cc. CHR '';'' \<notin> set f"
      by (rule cols_reduced_no_semicolon, rule cpu_names) (use that in auto)
    have m: "\<forall>f\<in>set ?mc. CHR '';'' \<notin> set f"
      by (rule cols_reduced_no_semicolon, rule info_memory_names) (use that in auto)
    show ?thesis unfolding ln using that c m by (intro row_data_split) auto
  qed
  show ?thesis using st rt ln len split by blast
qed

lemma sample_name_nonempty: "sample_name p \<noteq> []"
  by (simp add: sample_name_def split: option.splits)

lemma cols_two_pass_eq:
  "\<forall>x\<in>set entries. fst x \<noteq> [] \<Longrightarrow> cols_two_pass entries = cols_reduced entries"
  by (induction entries) (auto simp: cols_two_pass_def cols_reduced_def)

lemma main_info_Inr:
  assumes "main_info now_str c top_cpu m top_mem resp store now = Inr (line, store')"
  shows "\<exists>active total_requests rps.
           get_nginx_stub_status resp = Inr (active, total_requests) \<and>
           compute_requests_per_second store total_requests now = Inr (rps, store') \<and>
           line = join '';'' (row_items now_str c top_cpu m top_mem active rps)"
  using assms unfolding main_info_def
  by (auto split: sum.splits prod.splits)

lemma main_two_pass_Inr:
  assumes "main_two_pass obs = Inr (line, state')"
  shows "\<exists>active total_requests rps.
           get_nginx_stub_status (response obs) = Inr (active, total_requests) \<and>
           compute_requests_per_second (state obs) total_requests (clock obs) = Inr (rps, state') \<and>
           line = join '';''
             (row_data (timestamp obs) (cpu_usage obs)
                (cols_two_pass (pad_loop (get_top_processes_by_cpu 5 (cpu_procs obs))))
                (mem_usage obs)
                (cols_two_pass (pad_loop (get_top_processes_by_memory 5 (mem_procs obs))))
                active rps)"
  using assms unfolding main_two_pass_def Let_def
  by (auto split: sum.splits prod.splits)

lemma memory_names:
  assumes "\<forall>p\<in>set procs. CHR '';'' \<notin> set (sample_name p)"
  shows "\<forall>x\<in>set (pad_loop (get_top_processes_by_memory 5 procs)). CHR '';'' \<notin> set (fst x)"
  unfolding get_top_processes_by_memory_def
proof (rule padded_names)
  show "\<forall>x\<in>set (map memory_sample procs). CHR '';'' \<notin> set (fst x)"
  proof
    fix x assume "x \<in> set (map memory_sample procs)"
    then obtain p where p: "p \<in> set procs" "x = memory_sample p" by auto
    then show "CHR '';'' \<notin> set (fst x)"
      using assms sample_name_fst(2)[of p] by auto
  qed
qed

lemma padded_nonempty:
  assumes "\<forall>x\<in>set xs. fst x \<noteq> []"
  shows "\<forall>x\<in>set (pad_loop (top_n 5 xs)). fst x \<noteq> []"
  using assms top_n_subset[of 5 xs] by (auto simp: pad_loop_eq)

lemma sample_fst_nonempty: "fst (cpu_sample p) \<noteq> []" "fst (memory_sample p) \<noteq> []"
  using sample_name_fst(1)[of p] sample_name_fst(2)[of p] sample_name_nonempty[of p] by auto

lemma two_pass_cols:
  "cols_two_pass (pad_loop (get_top_processes_by_cpu 5 procs))
     = cols_reduced (pad_loop (get_top_processes_by_cpu 5 procs))"
  "cols_two_pass (pad_loop (get_top_processes_by_memory 5 procs))
     = cols_reduced (pad_loop (get_top_processes_by_memory 5 procs))"
proof -
  have "\<forall>x\<in>set (map cpu_sample procs). fst x \<noteq> []"
    by (auto simp: sample_fst_nonempty)
  then show "cols_two_pass (pad_loop (get_top_processes_by_cpu 5 procs))
     = cols_reduced (pad_loop (get_top_processes_by_cpu 5 procs))"
    unfolding get_top_processes_by_cpu_def by (intro cols_two_pass_eq padded_nonempty)
  have "\<forall>x\<in>set (map memory_sample procs). fst x \<noteq> []"
    by (auto simp: sample_fst_nonempty)
  then show "cols_two_pass (pad_loop (get_top_processes_by_memory 5 procs))
     = cols_reduced (pad_loop (get_top_processes_by_memory 5 procs))"
    unfolding get_top_processes_by_memory_def by (intro cols_two_pass_eq padded_nonempty)
qed

lemma two_pass_cols_length:
  "length (cols_two_pass (pad_loop (get_top_processes_by_cpu 5 procs))) = 10"
  "length (cols_two_pass (pad_loop (get_top_processes_by_memory 5 procs))) = 10"
  unfolding two_pass_cols
  by (simp_all add: cols_reduced_length get_top_processes_by_cpu_def
        get_top_processes_by_memory_def pad_top_n_length)

lemma main_two_pass_fields:
  assumes "main_two_pass obs = Inr (line, state')"
  shows "\<exists>active total_requests rps fields.
           get_nginx_stub_status (response obs) = Inr (active, total_requests) \<and>
           compute_requests_per_second (state obs) total_requests (clock obs) = Inr (rps, state') \<and>
           fields = row_data (timestamp obs) (cpu_usage obs)
                      (cols_two_pass (pad_loop (get_top_processes_by_cpu 5 (cpu_procs obs))))
                      (mem_usage obs)
                      (cols_two_pass (pad_loop (get_top_processes_by_memory 5 (mem_procs obs))))
                      active rps \<and>
           line = join '';'' fields \<and> length fields = 25 \<and>
           (CHR '';'' \<notin> set (timestamp obs) \<and>
            (\<forall>p\<in>set (cpu_procs obs @ mem_procs obs). CHR '';'' \<notin> set (sample_name p))
            \<longrightarrow> split_on (CHR '';'') line = fields)"
proof -
  from main_two_pass_Inr[OF assms] obtain active total_requests rps where
    st: "get_nginx_stub_status (response obs) = Inr (active, total_requests)" and
    rt: "compute_requests_per_second (state obs) total_requests (clock obs) = Inr (rps, state')" and
    ln: "line = join '';''
             (row_data (timestamp obs) (cpu_usage obs)
                (cols_two_pass (pad_loop (get_top_processes_by_cpu 5 (cpu_procs obs))))
                (mem_usage obs)
                (cols_two_pass (pad_loop (get_top_processes_by_memory 5 (mem_procs obs))))
                active rps)"
    by blast
  let ?cc = "cols_two_pass (pad_loop (get_top_processes_by_cpu 5 (cpu_procs obs)))"
  let ?mc = "cols_two_pass (pad_loop (get_top_processes_by_memory 5 (mem_procs obs)))"
  let ?fields = "row_data (timestamp obs) (cpu_usage obs) ?cc (mem_usage obs) ?mc active rps"
  have len: "length ?fields = 25"
    by (rule row_data_length) (rule two_pass_cols_length)+
  have split: "split_on (CHR '';'') line = ?fields"
    if "CHR '';'' \<notin> set (timestamp obs) \<and>
        (\<forall>p\<in>set (cpu_procs obs @ mem_procs obs). CHR '';'' \<notin> set (sample_name p))"
  proof -
    have c: "\<forall>f\<in>set ?cc. CHR '';'' \<notin> set f"
      unfolding two_pass_cols
      by (rule cols_reduced_no_semicolon, rule cpu_names) (use that in auto)
    have m: "\<forall>f\<in>set ?mc. CHR '';'' \<notin> set f"
      unfolding two_pass_cols
      by (rule cols_reduced_no_semicolon, rule memory_names) (use that in auto)
    show ?thesis unfolding ln using that c m by (intro row_data_split) auto
  qed
  show ?thesis using st rt ln len split by blast
qed

section \<open>Two runs, evaluated\<close>

lemma format_fixed_examples: "format_fixed 2 (123 / 10) = ''12.30''" "format_fixed 2 (9 / 2) = ''4.50''"
  "format_fixed 2 40 = ''40.00''" "format_fixed 2 (3 / 2) = ''1.50''" "format_fixed 2 5 = ''5.00''"
  by (simp_all add: format_fixed_def round_half_even_def zero_pad_def str_nat.simps digit_char_def)

lemma one_process_top_cpu: "pad_loop (get_top_processes_by_cpu 5 (cpu_procs one_process_run))
    = [(''nginx'', 4.5), (''-.'', 0), (''-.'', 0), (''-.'', 0), (''-.'', 0)]"
  by (simp add: one_process_run_def sampler_defs pad_loop.simps)

lemma one_process_top_mem: "pad_loop (get_top_processes_by_memory_reduced 5 (mem_procs one_process_run))
    = [(''nginx'', 1.5), (''-.'', 0), (''-.'', 0), (''-.'', 0), (''-.'', 0)]"
  by (simp add: one_process_run_def sampler_defs pad_loop.simps)

lemma one_process_status: "get_nginx_stub_status_reduced (response one_process_run) = Inr (5, 250)"
  by (simp add: one_process_run_def status_reduced_eq status_defs string_defs example_status_def)

lemma format_float_examples: "format_float 2 (Fin 5) = ''5.00''" "format_float 2 (Fin 0) = ''0.00''"
  by (simp_all add: format_float_def format_fixed_examples format_fixed_zero)

lemma one_process_top_mem_two_pass:
  "pad_loop (get_top_processes_by_memory 5 (mem_procs one_process_run))
    = [(''nginx'', 1.5), (''-.'', 0), (''-.'', 0), (''-.'', 0), (''-.'', 0)]"
  by (simp add: one_process_run_def sampler_defs pad_loop.simps)

lemma one_process_status_two_pass:
  "get_nginx_stub_status (response one_process_run) = Inr (5, 250)"
  by (simp add: one_process_run_def status_defs string_defs example_status_def)

lemma one_process_rate: "compute_requests_per_second (state one_process_run) 250 (clock one_process_run)
   = Inr (Fin 5, saved_state 250 100)"
proof -
  have h1: "(200::int) \<le> 250" and h2: "(90::real) < 100" by simp_all
  have h3: "real_of_int (250 - 200) < float_bound" and h4: "(100::real) - 90 < float_bound"
    and h5: "real_of_int (250 - 200) / (100 - 90) < float_bound"
    by (rule small_float, simp)+
  have h6: "\<bar>250::int\<bar> < 10 ^ int_max_str_digits" by (rule small_counter) simp
  show ?thesis using compute_saved_rate[OF h1 h2 h3 h4 h5 h6] by (simp add: one_process_run_def)
qed

lemma str_int_examples: "str_int 5 = ''5''" "str_int 0 = ''0''"
  by (simp_all add: str_int_def str_nat.simps digit_char_def)


lemma one_process_fields: "timestamp one_process_run = ''2025-01-31 12:00:00''"
  "cpu_usage one_process_run = 12.3" "mem_usage one_process_run = 40"
  by (simp_all add: one_process_run_def)

lemma one_process_main: "main_reduced one_process_run = Inr (one_process_line, saved_state 250 100)"
  by (simp add: main_reduced_def one_process_top_cpu one_process_top_mem one_process_status
        one_process_rate one_process_fields cols_reduced_def row_data_def format_fixed_zero
        format_fixed_examples format_float_examples str_int_examples one_process_line_def)

lemma one_process_main_two_pass:
  "main_two_pass one_process_run = Inr (one_process_line, saved_state 250 100)"
  by (simp add: main_two_pass_def one_process_top_cpu one_process_top_mem_two_pass
        one_process_status_two_pass one_process_rate one_process_fields cols_two_pass_def
        row_data_def format_fixed_zero format_fixed_examples format_float_examples
        str_int_examples one_process_line_def)

lemma semicolon_top_cpu: "pad_loop (get_top_processes_by_cpu 5 (cpu_procs semicolon_run))
    = [(''a;b'', 4.5), (''-.'', 0), (''-.'', 0), (''-.'', 0), (''-.'', 0)]"
  by (simp add: semicolon_run_def sampler_defs pad_loop.simps)

lemma semicolon_top_mem: "pad_loop (get_top_processes_by_memory_reduced 5 (mem_procs semicolon_run))
    = [(''-.'', 0), (''-.'', 0), (''-.'', 0), (''-.'', 0), (''-.'', 0)]"
  by (simp add: semicolon_run_def sampler_defs pad_loop.simps)

lemma semicolon_status: "get_nginx_stub_status_reduced (response semicolon_run) = Inr (0, 0)"
  by (simp add: semicolon_run_def get_nginx_stub_status_reduced_def)

lemma semicolon_rate: "compute_requests_per_second (state semicolon_run) 0 (clock semicolon_run)
   = Inr (Fin 0, saved_state 0 100)"
  by (simp add: semicolon_run_def compute_fresh)

lemma semicolon_fields: "timestamp semicolon_run = ''2025-01-31 12:00:00''"
  "cpu_usage semicolon_run = 12.3" "mem_usage semicolon_run = 40"
  by (simp_all add: semicolon_run_def)

lemma semicolon_main: "main_reduced semicolon_run = Inr (semicolon_line, saved_state 0 100)"
  by (simp add: main_reduced_def semicolon_top_cpu semicolon_top_mem semicolon_status
        semicolon_rate semicolon_fields cols_reduced_def row_data_def format_fixed_examples
        format_float_examples str_int_examples format_fixed_zero semicolon_line_def)

section \<open>The process table\<close>

lemmas top_defs = mem_line_match_def group_then_def word1_def spaces0_def spaces1_def lit_def
  is_header_def is_summary_def before_header_def summary_lines_def header_index_def
  process_rows_def py_split_max_def mem_try_def mem_update_def decimal_float_def
  top_header_def top_row_def

lemma startswithD: "startswith s p \<Longrightarrow> \<exists>r. s = p @ r"
  by (metis append_take_drop_id startswith_def)

lemma header_no_match:
  assumes "is_header l"
  shows "mem_line_match (strip l) = None"
proof (rule ccontr)
  assume "mem_line_match (strip l) \<noteq> None"
  then have "lit ''MiB Mem'' (strip l) \<noteq> None"
    by (auto simp: mem_line_match_def split: option.splits)
  then have "startswith (strip l) ''MiB Mem''"
    by (simp add: lit_def split: if_splits)
  then obtain r where r: "strip l = ''MiB Mem'' @ r" using startswithD by blast
  from assms have "startswith (strip l) ''PID''" by (simp add: is_header_def)
  then obtain r' where "strip l = ''PID'' @ r'" using startswithD by blast
  with r show False by simp
qed

lemma mem_update_header: "is_header l \<Longrightarrow> mem_update f l u = Inr u"
  by (simp add: mem_update_def header_no_match)

lemma mem_update_no_summary:
  assumes "\<not> is_summary l"
  shows "mem_update f l u = Inr u"
proof -
  have "mem_line_match (strip l) = None" using assms unfolding is_summary_def by blast
  then show ?thesis by (simp add: mem_update_def)
qed

lemma mem_scan_eq:
  "mem_scan f ls i u =
     (case scan_value f (before_header ls) u of
        Inl e \<Rightarrow> Inl e
      | Inr u' \<Rightarrow>
          Inr (u', if list_ex is_header ls then i + length (before_header ls) else 0))"
proof (induction ls arbitrary: i u)
  case Nil
  show ?case by (simp add: before_header_def)
next
  case (Cons l ls)
  show ?case
  proof (cases "is_header l")
    case True
    then show ?thesis
      using mem_update_header[OF True, of f u]
      by (simp add: before_header_def is_header_def)
  next
    case False
    then have nh: "\<not> startswith (strip l) ''PID''" by (simp add: is_header_def)
    show ?thesis
    proof (cases "mem_update f l u")
      case (Inl e)
      then show ?thesis using False by (simp add: before_header_def)
    next
      case (Inr u')
      then show ?thesis using False nh Cons[of "Suc i" u']
        by (simp add: before_header_def split: sum.splits)
    qed
  qed
qed

lemma scan_value_no_summary:
  "\<forall>l\<in>set ls. \<not> is_summary l \<Longrightarrow> scan_value f ls u = Inr u"
  by (induction ls) (auto simp: mem_update_no_summary)

lemma scan_value_append:
  "scan_value f (xs @ ys) u =
     (case scan_value f xs u of Inl e \<Rightarrow> Inl e | Inr u' \<Rightarrow> scan_value f ys u')"
  by (induction xs arbitrary: u) (auto split: sum.splits)

lemma scan_value_one:
  assumes "filter is_summary ls = [l]"
    and "mem_line_match (strip l) = Some groups"
  shows "scan_value f ls u = catch {ValueError} (mem_try f groups) 0"
proof -
  from assms(1) obtain us vs where
    ls: "ls = us @ l # vs" and us: "\<forall>x\<in>set us. \<not> is_summary x"
    and vs: "[] = filter is_summary vs"
    unfolding filter_eq_Cons_iff by blast
  have vs': "\<forall>x\<in>set vs. \<not> is_summary x"
    using vs by (metis filter_empty_conv)
  have one: "mem_update f l u' = catch {ValueError} (mem_try f groups) 0" for u'
    using assms(2) by (simp add: mem_update_def)
  show ?thesis
    unfolding ls
    by (simp add: scan_value_append scan_value_no_summary[OF us] one
          scan_value_no_summary[OF vs'] split: sum.splits)
qed

lemma get_top_mem_info_eq:
  "get_top_mem_info f output =
     (case scan_value f (before_header output) 0 of
        Inl e \<Rightarrow> Inl e
      | Inr u \<Rightarrow> Inr (u, process_rows output))"
  by (simp add: get_top_mem_info_def mem_scan_eq process_rows_def header_index_def
        split: sum.splits)

lemma top_mem_absent:
  assumes "summary_lines output = []"
  shows "get_top_mem_info f output = Inr (0, process_rows output)"
proof -
  have "\<forall>l\<in>set (before_header output). \<not> is_summary l"
    using assms unfolding summary_lines_def by (metis filter_empty_conv)
  then show ?thesis by (simp add: get_top_mem_info_eq scan_value_no_summary)
qed

lemma top_mem_one:
  assumes "summary_lines output = [l]" and "mem_line_match (strip l) = Some groups"
  shows "get_top_mem_info f output =
     (case catch {ValueError} (mem_try f groups) 0 of
        Inl e \<Rightarrow> Inl e
      | Inr u \<Rightarrow> Inr (u, process_rows output))"
  using assms unfolding summary_lines_def
  by (simp add: get_top_mem_info_eq scan_value_one)

lemma mem_try_cases:
  "f g1 = Some t \<Longrightarrow> f g2 = Some fr \<Longrightarrow> f g3 = Some u \<Longrightarrow> f g4 = Some b \<Longrightarrow> t \<noteq> 0 \<Longrightarrow>
     catch {ValueError} (mem_try f (g1, g2, g3, g4)) 0 = Inr (u / t * 100)"
  "f g1 = None \<or> f g2 = None \<or> f g3 = None \<or> f g4 = None \<Longrightarrow>
     catch {ValueError} (mem_try f (g1, g2, g3, g4)) 0 = Inr 0"
  "f g1 = Some 0 \<Longrightarrow> f g2 = Some fr \<Longrightarrow> f g3 = Some u \<Longrightarrow> f g4 = Some b \<Longrightarrow>
     catch {ValueError} (mem_try f (g1, g2, g3, g4)) 0 = Inl ZeroDivisionError"
  by (auto simp: mem_try_def py_truediv_def catch_def split: option.splits)

section \<open>Outputs of \<open>top\<close>, evaluated\<close>

lemma decimal_float_examples:
  "decimal_float ''16000.0'' = Some 16000" "decimal_float ''12000.0'' = Some 12000"
  "decimal_float ''4000.0'' = Some 4000" "decimal_float ''0.0'' = Some 0"
  "decimal_float ''16000,0'' = None"
  by (simp_all add: decimal_float_def digit_value_def)

lemma summary_line_matches:
  "mem_line_match (strip mem_summary_line) = Some (''16000.0'', ''12000.0'', ''4000.0'', ''0.0'')"
  "mem_line_match (strip zero_summary_line) = Some (''0.0'', ''0.0'', ''0.0'', ''0.0'')"
  "mem_line_match (strip comma_summary_line) = Some (''16000,0'', ''12000,0'', ''4000,0'', ''0,0'')"
  by (simp_all add: mem_summary_line_def zero_summary_line_def comma_summary_line_def
        top_defs string_defs)

lemma top_output_summary:
  "summary_lines top_output = [mem_summary_line]"
  "process_rows top_output = [(''/sbin/init splash'', ''0.1'')]"
  by (simp_all add: top_output_def mem_summary_line_def top_defs string_defs)

lemma zero_total_output_summary:
  "summary_lines zero_total_output = [zero_summary_line]"
  by (simp add: zero_total_output_def zero_summary_line_def top_defs string_defs)

lemma no_summary_output_summary:
  "summary_lines no_summary_output = []"
  "process_rows no_summary_output = [(''/sbin/init splash'', ''0.1'')]"
  by (simp_all add: no_summary_output_def top_defs string_defs)

lemma comma_output_summary:
  "summary_lines comma_output = [comma_summary_line]"
  "process_rows comma_output = [(''/sbin/init splash'', ''0.1'')]"
  by (simp_all add: comma_output_def comma_summary_line_def top_defs string_defs)

text \<open>
  Claim C1 is not what the code does, although the docstrings promise it (\<open>If there's
  any error, return (0, 0)\<close>; \<open>If error or parse failure, return (0, 0)\<close> in
  \<^verbatim>\<open>scrape_metrics_psutil_reduced.py\<close>). The parse never raises, and a failed request
  or a text with fewer than three lines (once its surrounding whitespace is stripped)
  gives \<open>(0, 0)\<close>. But the two fields are parsed by two separate \<open>try\<close> blocks and each
  falls back to \<open>0\<close> on its own: the active connections are \<open>0\<close> when no line starts
  with \<open>Active connections:\<close> or when the first such line has no integer third token;
  the total is \<open>0\<close> when the third line is not exactly three tokens or its third token
  is not an integer. So a text with a good connections line and a third line of four
  fields gives \<open>(5, 0)\<close>, and a text whose connections line holds no integer gives
  \<open>(0, 250)\<close>, not \<open>(0, 0)\<close>. The variant of \<^verbatim>\<open>scrape_metrics_psutil_reduced.py\<close>
  computes the same function.
\<close>

theorem status_parse_falls_back_per_field:
  "(\<exists>a t. get_nginx_stub_status resp = Inr (a, t)) \<and>
   get_nginx_stub_status_reduced resp = get_nginx_stub_status resp \<and>
   get_nginx_stub_status RequestFailed = Inr (0, 0) \<and>
   (length (status_lines short) < 3 \<longrightarrow> get_nginx_stub_status (Response short) = Inr (0, 0)) \<and>
   (3 \<le> length (status_lines body) \<longrightarrow>
      (\<exists>a t. parse_active_connections (status_lines body) = Inr a \<and>
             parse_total_requests (status_lines body) = Inr t \<and>
             get_nginx_stub_status (Response body) = Inr (a, t))) \<and>
   (find active_line ls1 = None \<longrightarrow> parse_active_connections ls1 = Inr 0) \<and>
   (find active_line ls2 = Some l \<and>
      (length (py_split l) < 3 \<or> py_int (py_split l ! 2) = Inl ValueError) \<longrightarrow>
      parse_active_connections ls2 = Inr 0) \<and>
   (3 \<le> length ls3 \<and>
      (length (py_split (ls3 ! 2)) \<noteq> 3 \<or> py_int (py_split (ls3 ! 2) ! 2) = Inl ValueError) \<longrightarrow>
      parse_total_requests ls3 = Inr 0) \<and>
   get_nginx_stub_status (Response four_field_status) = Inr (5, 0) \<and>
   get_nginx_stub_status (Response garbled_active_status) = Inr (0, 250)"
proof (intro conjI impI)
  show "\<exists>a t. get_nginx_stub_status resp = Inr (a, t)" by (rule status_never_raises)
  show "get_nginx_stub_status_reduced resp = get_nginx_stub_status resp"
    by (rule status_reduced_eq)
  show "get_nginx_stub_status RequestFailed = Inr (0, 0)"
    by (simp add: get_nginx_stub_status_def)
next
  assume "length (status_lines short) < 3"
  then show "get_nginx_stub_status (Response short) = Inr (0, 0)" by (rule status_short)
next
  assume "3 \<le> length (status_lines body)"
  then show "\<exists>a t. parse_active_connections (status_lines body) = Inr a \<and>
             parse_total_requests (status_lines body) = Inr t \<and>
             get_nginx_stub_status (Response body) = Inr (a, t)" by (rule status_fields)
next
  assume "find active_line ls1 = None"
  then show "parse_active_connections ls1 = Inr 0" by (rule parse_active_missing)
next
  assume "find active_line ls2 = Some l \<and>
      (length (py_split l) < 3 \<or> py_int (py_split l ! 2) = Inl ValueError)"
  then show "parse_active_connections ls2 = Inr 0" using parse_active_malformed by blast
next
  assume "3 \<le> length ls3 \<and>
      (length (py_split (ls3 ! 2)) \<noteq> 3 \<or> py_int (py_split (ls3 ! 2) ! 2) = Inl ValueError)"
  then show "parse_total_requests ls3 = Inr 0" using parse_total_malformed by blast
next
  show "get_nginx_stub_status (Response four_field_status) = Inr (5, 0)"
    by (simp add: status_defs string_defs four_field_status_def)
next
  show "get_nginx_stub_status (Response garbled_active_status) = Inr (0, 250)"
    by (simp add: status_defs string_defs garbled_active_status_def)
qed

text \<open>
  The theorem at concrete texts: a one-line text; the example of the specification; a
  text without a connections line (the total is still read); a text whose connections
  line holds no integer; a text whose third line has four fields (the active
  connections are still read).
\<close>

theorem status_parse_falls_back_per_field_witness:
  "length (status_lines ''Active connections: 5'') < 3 \<and>
   get_nginx_stub_status (Response ''Active connections: 5'') = Inr (0, 0) \<and>
   3 \<le> length (status_lines example_status) \<and>
   get_nginx_stub_status (Response example_status) = Inr (5, 250) \<and>
   find active_line (status_lines headless_status) = None \<and>
   parse_active_connections (status_lines headless_status) = Inr 0 \<and>
   get_nginx_stub_status (Response headless_status) = Inr (0, 250) \<and>
   find active_line (status_lines garbled_active_status) = Some ''Active connections: many'' \<and>
   py_int (py_split ''Active connections: many'' ! 2) = Inl ValueError \<and>
   parse_active_connections (status_lines garbled_active_status) = Inr 0 \<and>
   length (py_split (status_lines four_field_status ! 2)) = 4 \<and>
   parse_total_requests (status_lines four_field_status) = Inr 0"
  using status_parse_falls_back_per_field
    [of "Response example_status" "''Active connections: 5'' " example_status
        "status_lines headless_status" "status_lines garbled_active_status"
        "''Active connections: many''" "status_lines four_field_status"]
  by (simp add: status_defs string_defs example_status_def headless_status_def
        garbled_active_status_def four_field_status_def)

text \<open>
  Claim C8, as amended. Let the lines be those of the status text once its leading and
  trailing whitespace is stripped. If there are at least three of them, the third
  consists of exactly three whitespace-separated tokens of which the last is an integer
  \<open>T\<close> (so in particular when it is three integers \<open>A H T\<close>), and the first line that
  starts with \<open>Active connections:\<close> continues with a blank and a text whose first
  whitespace-separated token is an integer \<open>C\<close>, then the parse returns \<open>(C, T)\<close>, in
  every script.
\<close>

theorem status_parse_wellformed:
  assumes "3 \<le> length (status_lines body)"
    and "py_split (status_lines body ! 2) = [a, h, t]"
    and "py_int t = Inr T"
    and "find active_line (status_lines body) = Some (''Active connections: '' @ rest)"
    and "py_split rest = c # toks" and "py_int c = Inr C"
  shows "get_nginx_stub_status (Response body) = Inr (C, T) \<and>
         get_nginx_stub_status_reduced (Response body) = Inr (C, T)"
proof -
  define l where "l = ''Active connections: '' @ rest"
  have parts: "py_split l = ''Active'' # ''connections:'' # c # toks"
    unfolding l_def using assms(5) by (simp only: py_split_active_line)
  have "find active_line (status_lines body) = Some l"
    unfolding l_def using assms(4) .
  then have act: "parse_active_connections (status_lines body) = Inr C"
    using parts assms(6) by (simp add: parse_active_connections_def active_loop_find catch_def)
  have tot: "parse_total_requests (status_lines body) = Inr T"
    using assms(1,2,3) by (simp add: parse_total_requests_def total_try_third catch_def)
  have "get_nginx_stub_status (Response body) = Inr (C, T)"
    using act tot by (simp add: status_long[OF assms(1)])
  then show ?thesis by (simp add: status_reduced_eq)
qed

text \<open>The theorem at the status text that the comment in
  \<^verbatim>\<open>scrape_metrics_psutil_reduced.py\<close> shows, with the blank that nginx puts at the end
  of the lines.\<close>

theorem status_parse_wellformed_witness:
  "py_split (status_lines trailing_blank_status ! 2) = [''16630948'', ''16630948'', ''31070481''] \<and>
   find active_line (status_lines trailing_blank_status)
     = Some (''Active connections: '' @ ''291 '') \<and>
   py_split ''291 '' = [''291''] \<and>
   get_nginx_stub_status (Response trailing_blank_status) = Inr (291, 31070481) \<and>
   get_nginx_stub_status_reduced (Response trailing_blank_status) = Inr (291, 31070481)"
proof -
  have h1: "3 \<le> length (status_lines trailing_blank_status)"
    by (simp add: status_defs string_defs trailing_blank_status_def)
  have h2: "py_split (status_lines trailing_blank_status ! 2)
      = [''16630948'', ''16630948'', ''31070481'']"
    by (simp add: status_defs string_defs trailing_blank_status_def)
  have h4: "py_int ''31070481'' = Inr 31070481" and h5: "py_int ''291'' = Inr 291"
    by (simp_all add: string_defs)
  have h6: "find active_line (status_lines trailing_blank_status)
      = Some (''Active connections: '' @ ''291 '')"
    by (simp add: status_defs string_defs trailing_blank_status_def)
  have h7: "py_split ''291 '' = [''291'']"
    by (simp add: string_defs)
  show ?thesis
    using status_parse_wellformed[OF h1 h2 h4 h6 h7 h5] h2 h6 h7 by (intro conjI) simp_all
qed

text \<open>
  Claim C8 as stated fails: the text below has \<open>100 100 250\<close> as its third line and
  contains the line \<open>Active connections: 5\<close>, but it starts with an empty line, which
  \<open>strip\<close> removes before the lines are counted: two lines remain and the result is
  \<open>(0, 0)\<close>.
\<close>

theorem status_parse_leading_blank_counterexample:
  "py_split (split_on (CHR ''\<newline>'') leading_blank_status ! 2) = [''100'', ''100'', ''250''] \<and>
   split_on (CHR ''\<newline>'') leading_blank_status ! 1 = ''Active connections: 5'' \<and>
   get_nginx_stub_status (Response leading_blank_status) = Inr (0, 0)"
  by (simp add: status_defs string_defs leading_blank_status_def)

text \<open>
  Claim C7, as amended. On a fresh store (no state file) the call with a counter of at
  most \<open>int_max_str_digits\<close> decimal digits, as every counter read by the status parse
  is, returns \<open>0.0\<close> and persists \<open>{current_counter, now}\<close>: the state file then holds
  the object with the counter under \<open>last_requests\<close> and the clock reading under
  \<open>last_time\<close>, and that pair is what the next run reads back from it.
\<close>

theorem compute_rate_fresh_store:
  assumes "\<bar>current_counter\<bar> < 10 ^ int_max_str_digits"
  shows "compute_requests_per_second NoFile current_counter now =
           Inr (Fin 0,
                StateFile (Parsed (JObject [(''last_requests'', JInt current_counter),
                                            (''last_time'', JFloat (Fin now))]))) \<and>
         load_state (Parsed (JObject [(''last_requests'', JInt current_counter),
                                      (''last_time'', JFloat (Fin now))])) later =
           Inr (JInt current_counter, JFloat (Fin now))"
  using compute_fresh[OF assms, of now]
  by (simp add: saved_state_def rate_state_def load_state_def dict_get_def)

text \<open>The first run of the specification's scenario: the counter \<open>250\<close> at time
  \<open>100\<close>, read back at time \<open>160\<close>.\<close>

theorem compute_rate_fresh_store_witness:
  "compute_requests_per_second NoFile 250 100 =
     Inr (Fin 0, StateFile (Parsed (JObject [(''last_requests'', JInt 250),
                                             (''last_time'', JFloat (Fin 100))]))) \<and>
   load_state (Parsed (JObject [(''last_requests'', JInt 250),
                                (''last_time'', JFloat (Fin 100))])) 160 =
     Inr (JInt 250, JFloat (Fin 100))"
proof -
  have "\<bar>250::int\<bar> < 10 ^ int_max_str_digits" by (rule small_counter) simp
  from compute_rate_fresh_store[OF this, of 100 160] show ?thesis .
qed

text \<open>
  Claim C7 as stated fails for a counter of more than \<open>int_max_str_digits\<close> digits:
  \<open>json.dump\<close> raises \<open>ValueError\<close> when it renders the counter, so the call returns
  nothing and the file it has just created does not hold \<open>{current_counter, now}\<close>.
\<close>

theorem compute_rate_fresh_store_counterexample:
  "compute_requests_per_second NoFile (10 ^ int_max_str_digits) 100 = Inl ValueError"
  by (simp add: compute_requests_per_second_def json_dump_state_def)







text \<open>
  Claim C4 is not what the code does for every corrupt state. A state file that is not
  JSON, or that vanished before it was opened, is absorbed as the claim says: the call
  returns \<open>0.0\<close> and overwrites the store (with a counter too long for \<open>json.dump\<close> it
  raises \<open>ValueError\<close> at the write). A state file that holds JSON of another
  shape (here the array \<open>[]\<close>, or an object whose counter is a string), or that cannot
  be read, raises: the handler lists \<open>json.JSONDecodeError\<close> and \<open>FileNotFoundError\<close>
  only.
\<close>

theorem compute_rate_corrupt_state:
  "compute_requests_per_second (StateFile Malformed) c now
     = (if \<bar>c\<bar> < 10 ^ int_max_str_digits then Inr (Fin 0, saved_state c now)
        else Inl ValueError) \<and>
   compute_requests_per_second (StateFile (ReadRaises FileNotFoundError)) c now
     = (if \<bar>c\<bar> < 10 ^ int_max_str_digits then Inr (Fin 0, saved_state c now)
        else Inl ValueError) \<and>
   compute_requests_per_second (StateFile (Parsed (JArray []))) c now = Inl AttributeError \<and>
   compute_requests_per_second
     (StateFile (Parsed (JObject [(''last_requests'', JString ''250'')]))) c now = Inl TypeError \<and>
   compute_requests_per_second (StateFile (ReadRaises PermissionError)) c now
     = Inl PermissionError"
proof -
  have "compute_requests_per_second (StateFile Malformed) c now
     = (if \<bar>c\<bar> < 10 ^ int_max_str_digits then Inr (Fin 0, saved_state c now)
        else Inl ValueError)"
    by (simp add: compute_absorbed[of Malformed now JSONDecodeError] load_state_def
          json_dump_state_def)
  moreover have "compute_requests_per_second (StateFile (ReadRaises FileNotFoundError)) c now
     = (if \<bar>c\<bar> < 10 ^ int_max_str_digits then Inr (Fin 0, saved_state c now)
        else Inl ValueError)"
    by (simp add: compute_absorbed[of "ReadRaises FileNotFoundError" now FileNotFoundError]
          load_state_def json_dump_state_def)
  moreover have "compute_requests_per_second (StateFile (Parsed (JArray []))) c now
     = Inl AttributeError"
    by (simp add: compute_requests_per_second_def load_state_def catch_def)
  moreover have "compute_requests_per_second
     (StateFile (Parsed (JObject [(''last_requests'', JString ''250'')]))) c now = Inl TypeError"
    by (simp add: compute_requests_per_second_def load_state_def catch_def dict_get_def
          as_number_def now_greater_def)
  moreover have "compute_requests_per_second (StateFile (ReadRaises PermissionError)) c now
     = Inl PermissionError"
    by (simp add: compute_requests_per_second_def load_state_def catch_def)
  ultimately show ?thesis by (intro conjI)
qed




text \<open>
  Claim C2, as amended. For every \<open>n\<close> and every enumeration,
  \<open>get_top_processes_by_cpu\<close> and \<open>get_top_processes_by_memory\<close> return
  \<open>min n (number of enumerated processes)\<close> entries, one sample per process with a
  failed read counted as the sample \<open>("-.", 0.0)\<close>; the values do not increase along
  the result, and entries of equal value keep their enumeration order. The functions
  do not pad: \<open>main\<close> pads the result of the call with \<open>n = 5\<close> to exactly five entries
  with \<open>("-.", 0.0)\<close>, and the padded list is still non-increasing when no sample is
  negative.
\<close>

theorem top_processes_sorted_stable_padded_by_main:
  "length (get_top_processes_by_cpu n procs) = min n (length procs) \<and>
   non_increasing (get_top_processes_by_cpu n procs) \<and>
   prefix (of_value v (get_top_processes_by_cpu n procs)) (of_value v (map cpu_sample procs)) \<and>
   (cpu_percent proc = Inl e \<longrightarrow> cpu_sample proc = (''-.'', 0)) \<and>
   length (get_top_processes_by_memory n procs) = min n (length procs) \<and>
   non_increasing (get_top_processes_by_memory n procs) \<and>
   prefix (of_value v (get_top_processes_by_memory n procs))
     (of_value v (map memory_sample procs)) \<and>
   (memory_percent proc = Inl e \<longrightarrow> memory_sample proc = (''-.'', 0)) \<and>
   length (get_top_processes_by_memory_reduced n procs) = min n (length procs) \<and>
   non_increasing (get_top_processes_by_memory_reduced n procs) \<and>
   prefix (of_value v (get_top_processes_by_memory_reduced n procs))
     (of_value v (map info_memory_sample procs)) \<and>
   pad_loop entries = entries @ replicate (5 - length entries) (''-.'', 0) \<and>
   length (pad_loop (top_n 5 samples)) = 5 \<and>
   ((\<forall>x\<in>set samples. 0 \<le> snd x) \<longrightarrow> non_increasing (pad_loop (top_n 5 samples)))"
proof (intro conjI impI)
  show "pad_loop entries = entries @ replicate (5 - length entries) (''-.'', 0)"
    by (rule pad_loop_eq)
  show "length (pad_loop (top_n 5 samples)) = 5"
    by (simp add: pad_loop_eq top_n_length)
next
  assume "cpu_percent proc = Inl e"
  then show "cpu_sample proc = (''-.'', 0)" by (simp add: cpu_sample_def)
next
  assume "memory_percent proc = Inl e"
  then show "memory_sample proc = (''-.'', 0)" by (simp add: memory_sample_def)
next
  assume nonneg: "\<forall>x\<in>set samples. 0 \<le> snd x"
  have "\<forall>x\<in>set (top_n 5 samples). 0 \<le> snd x"
    using nonneg top_n_subset[of 5 samples] by blast
  then show "non_increasing (pad_loop (top_n 5 samples))"
    using top_n_sorted by (rule pad_loop_sorted[rotated])
qed (simp_all add: get_top_processes_by_cpu_def get_top_processes_by_memory_def
       get_top_processes_by_memory_reduced_def top_n_length top_n_sorted top_n_ties)

text \<open>
  The theorem at seven processes with three ties, for \<open>n = 3\<close> and \<open>n = 5\<close>, and at
  two processes of which one exits during the scan: two entries come back and \<open>main\<close>
  pads them to five.
\<close>

theorem top_processes_sorted_stable_padded_by_main_witness:
  "get_top_processes_by_cpu 3 seven_processes = [(''c'', 7), (''f'', 3), (''a'', 2)] \<and>
   of_value 2 (map cpu_sample seven_processes) = [(''a'', 2), (''d'', 2), (''e'', 2)] \<and>
   prefix [(''a'', 2)] [(''a'', 2), (''d'', 2), (''e'', 2::real)] \<and>
   cpu_percent (two_processes ! 1) = Inl NoSuchProcess \<and>
   cpu_sample (two_processes ! 1) = (''-.'', 0) \<and>
   memory_sample (two_processes ! 1) = (''-.'', 0) \<and>
   get_top_processes_by_cpu 5 two_processes = [(''nginx'', 4.5), (''-.'', 0)] \<and>
   list_all (\<lambda>x. 0 \<le> snd x) (map cpu_sample two_processes) \<and>
   pad_loop (top_n 5 (map cpu_sample two_processes))
     = [(''nginx'', 4.5), (''-.'', 0), (''-.'', 0), (''-.'', 0), (''-.'', 0)] \<and>
   non_increasing (pad_loop (top_n 5 (map cpu_sample two_processes)))"
  using top_processes_sorted_stable_padded_by_main
    [of 3 seven_processes 2 "two_processes ! 1" NoSuchProcess
        "top_n 5 (map cpu_sample two_processes)" "map cpu_sample two_processes"]
  by (simp add: sampler_defs seven_processes_def two_processes_def replicate_three)

text \<open>
  Claim C2 as stated fails: with two processes enumerated, the call with \<open>n = 5\<close>
  returns two entries, not five.
\<close>

theorem top_processes_not_padded_counterexample:
  "length (get_top_processes_by_cpu 5 two_processes) = 2 \<and>
   length (get_top_processes_by_memory 5 two_processes) = 2 \<and>
   length (get_top_processes_by_memory_reduced 5 two_processes) = 2"
  by (simp add: sampler_defs two_processes_def)

text \<open>
  Claim C3, as amended. In \<^verbatim>\<open>scrape_metrics_psutil_reduced.py\<close> and in
  \<^verbatim>\<open>t_scrape_metrics_psutil.py\<close> every run that completes emits the \<open>;\<close>-join of exactly
  25 items in the order: timestamp; CPU percentage; five pairs of process name and CPU
  value; memory percentage; five pairs of process name and memory value; active
  connections as integer text; requests per second. The percentages and the
  per-process values have two decimals, and so has the rate when it is finite (an
  infinite rate is written \<open>inf\<close>); every slot beyond the samples obtained is the pair
  \<open>-.\<close>, \<open>0.00\<close>. Nothing escapes a \<open>;\<close> inside a process name: the line splits into
  exactly these 25 fields provided neither the timestamp nor a process name contains
  \<open>;\<close>. In \<^verbatim>\<open>get_metrics_psutil.py\<close> and the two \<open>top\<close>-based scripts the row also has 25
  items, but a missing slot is a pair of empty strings and the per-process values are
  the texts the sampling functions return.
\<close>

theorem record_has_25_items_in_order:
  "row_data ts c cpu_cols m mem_cols a r =
     [ts, format_fixed 2 c] @ cpu_cols @ [format_fixed 2 m] @ mem_cols
       @ [str_int a, format_float 2 r] \<and>
   format_float 2 (Fin x) = format_fixed 2 x \<and>
   cols_reduced entries = concat (map (\<lambda>x. [fst x, format_fixed 2 (snd x)]) entries) \<and>
   cols_reduced (pad_loop entries) =
     cols_reduced entries @ concat (replicate (5 - length entries) [''-.'', ''0.00'']) \<and>
   cols_two_pass (pad_loop (get_top_processes_by_cpu 5 procs))
     = cols_reduced (pad_loop (get_top_processes_by_cpu 5 procs)) \<and>
   cols_two_pass (pad_loop (get_top_processes_by_memory 5 procs))
     = cols_reduced (pad_loop (get_top_processes_by_memory 5 procs)) \<and>
   (main_reduced obs = Inr (line, state') \<longrightarrow>
      (\<exists>active total_requests rps fields.
         get_nginx_stub_status_reduced (response obs) = Inr (active, total_requests) \<and>
         compute_requests_per_second (state obs) total_requests (clock obs) = Inr (rps, state') \<and>
         fields = row_data (timestamp obs) (cpu_usage obs)
                    (cols_reduced (pad_loop (get_top_processes_by_cpu 5 (cpu_procs obs))))
                    (mem_usage obs)
                    (cols_reduced
                       (pad_loop (get_top_processes_by_memory_reduced 5 (mem_procs obs))))
                    active rps \<and>
         line = join '';'' fields \<and> length fields = 25 \<and>
         (CHR '';'' \<notin> set (timestamp obs) \<and>
          (\<forall>p\<in>set (cpu_procs obs @ mem_procs obs). CHR '';'' \<notin> set (sample_name p))
          \<longrightarrow> split_on (CHR '';'') line = fields))) \<and>
   (main_two_pass obs2 = Inr (line2, state2) \<longrightarrow>
      (\<exists>active total_requests rps fields.
         get_nginx_stub_status (response obs2) = Inr (active, total_requests) \<and>
         compute_requests_per_second (state obs2) total_requests (clock obs2) = Inr (rps, state2) \<and>
         fields = row_data (timestamp obs2) (cpu_usage obs2)
                    (cols_two_pass (pad_loop (get_top_processes_by_cpu 5 (cpu_procs obs2))))
                    (mem_usage obs2)
                    (cols_two_pass (pad_loop (get_top_processes_by_memory 5 (mem_procs obs2))))
                    active rps \<and>
         line2 = join '';'' fields \<and> length fields = 25 \<and>
         (CHR '';'' \<notin> set (timestamp obs2) \<and>
          (\<forall>p\<in>set (cpu_procs obs2 @ mem_procs obs2). CHR '';'' \<notin> set (sample_name p))
          \<longrightarrow> split_on (CHR '';'') line2 = fields))) \<and>
   length (row_items now_str c top_cpu m top_mem a r) = 25 \<and>
   top_fields pairs =
     concat (map (\<lambda>x. [fst x, snd x]) (take 5 pairs))
       @ concat (replicate (5 - length pairs) ['''', ''''])"
proof (intro conjI impI)
  show "row_data ts c cpu_cols m mem_cols a r =
     [ts, format_fixed 2 c] @ cpu_cols @ [format_fixed 2 m] @ mem_cols
       @ [str_int a, format_float 2 r]"
    by (simp add: row_data_def)
  show "format_float 2 (Fin x) = format_fixed 2 x"
    by (simp add: format_float_def)
  show "cols_reduced entries = concat (map (\<lambda>x. [fst x, format_fixed 2 (snd x)]) entries)"
    by (simp add: cols_reduced_def split_def)
  show "cols_reduced (pad_loop entries) =
     cols_reduced entries @ concat (replicate (5 - length entries) [''-.'', ''0.00''])"
    by (rule cols_reduced_pad)
  show "cols_two_pass (pad_loop (get_top_processes_by_cpu 5 procs))
     = cols_reduced (pad_loop (get_top_processes_by_cpu 5 procs))"
    by (rule two_pass_cols)
  show "cols_two_pass (pad_loop (get_top_processes_by_memory 5 procs))
     = cols_reduced (pad_loop (get_top_processes_by_memory 5 procs))"
    by (rule two_pass_cols)
  show "length (row_items now_str c top_cpu m top_mem a r) = 25"
    by (simp add: row_items_def top_fields_length)
  show "top_fields pairs =
     concat (map (\<lambda>x. [fst x, snd x]) (take 5 pairs))
       @ concat (replicate (5 - length pairs) ['''', ''''])"
    by (rule top_fields_eq)
next
  assume "main_reduced obs = Inr (line, state')"
  then show "\<exists>active total_requests rps fields.
         get_nginx_stub_status_reduced (response obs) = Inr (active, total_requests) \<and>
         compute_requests_per_second (state obs) total_requests (clock obs) = Inr (rps, state') \<and>
         fields = row_data (timestamp obs) (cpu_usage obs)
                    (cols_reduced (pad_loop (get_top_processes_by_cpu 5 (cpu_procs obs))))
                    (mem_usage obs)
                    (cols_reduced
                       (pad_loop (get_top_processes_by_memory_reduced 5 (mem_procs obs))))
                    active rps \<and>
         line = join '';'' fields \<and> length fields = 25 \<and>
         (CHR '';'' \<notin> set (timestamp obs) \<and>
          (\<forall>p\<in>set (cpu_procs obs @ mem_procs obs). CHR '';'' \<notin> set (sample_name p))
          \<longrightarrow> split_on (CHR '';'') line = fields)"
    by (rule main_reduced_fields)
next
  assume "main_two_pass obs2 = Inr (line2, state2)"
  then show "\<exists>active total_requests rps fields.
         get_nginx_stub_status (response obs2) = Inr (active, total_requests) \<and>
         compute_requests_per_second (state obs2) total_requests (clock obs2) = Inr (rps, state2) \<and>
         fields = row_data (timestamp obs2) (cpu_usage obs2)
                    (cols_two_pass (pad_loop (get_top_processes_by_cpu 5 (cpu_procs obs2))))
                    (mem_usage obs2)
                    (cols_two_pass (pad_loop (get_top_processes_by_memory 5 (mem_procs obs2))))
                    active rps \<and>
         line2 = join '';'' fields \<and> length fields = 25 \<and>
         (CHR '';'' \<notin> set (timestamp obs2) \<and>
          (\<forall>p\<in>set (cpu_procs obs2 @ mem_procs obs2). CHR '';'' \<notin> set (sample_name p))
          \<longrightarrow> split_on (CHR '';'') line2 = fields)"
    by (rule main_two_pass_fields)
qed

text \<open>
  The scenario of the specification: CPU usage \<open>12.3\<close>, one process \<open>("nginx", 4.5)\<close>
  and four missing slots. The run completes in both scripts with the same line, which
  splits into 25 fields, and the CPU segment reads
  \<open>12.30;nginx;4.50;-.;0.00;-.;0.00;-.;0.00;-.;0.00\<close>.
\<close>

theorem record_has_25_items_in_order_witness:
  "main_reduced one_process_run = Inr (one_process_line, saved_state 250 100) \<and>
   main_two_pass one_process_run = Inr (one_process_line, saved_state 250 100) \<and>
   CHR '';'' \<notin> set (timestamp one_process_run) \<and>
   length (split_on (CHR '';'') one_process_line) = 25 \<and>
   split_on (CHR '';'') one_process_line =
     row_data (timestamp one_process_run) (cpu_usage one_process_run)
       (cols_two_pass (pad_loop (get_top_processes_by_cpu 5 (cpu_procs one_process_run))))
       (mem_usage one_process_run)
       (cols_two_pass (pad_loop (get_top_processes_by_memory 5 (mem_procs one_process_run))))
       5 (Fin 5) \<and>
   take 11 (drop 1 (split_on (CHR '';'') one_process_line)) =
     [''12.30'', ''nginx'', ''4.50'', ''-.'', ''0.00'', ''-.'', ''0.00'', ''-.'', ''0.00'',
      ''-.'', ''0.00'']"
proof -
  have run: "main_reduced one_process_run = Inr (one_process_line, saved_state 250 100)"
    by (rule one_process_main)
  have run2: "main_two_pass one_process_run = Inr (one_process_line, saved_state 250 100)"
    by (rule one_process_main_two_pass)
  have ts: "CHR '';'' \<notin> set (timestamp one_process_run)"
    by (simp add: one_process_fields)
  have names: "\<forall>p\<in>set (cpu_procs one_process_run @ mem_procs one_process_run).
                 CHR '';'' \<notin> set (sample_name p)"
    by (simp add: one_process_run_def sample_name_def)
  note inst = record_has_25_items_in_order[where obs = one_process_run
      and line = one_process_line and state' = "saved_state 250 100"
      and ?obs2.0 = one_process_run and ?line2.0 = one_process_line
      and ?state2.0 = "saved_state 250 100"]
  from inst run ts names
  obtain fields where "length fields = 25" "split_on (CHR '';'') one_process_line = fields"
    by blast
  then have len: "length (split_on (CHR '';'') one_process_line) = 25" by simp
  note two_pass = inst[THEN conjunct2, THEN conjunct2, THEN conjunct2, THEN conjunct2,
      THEN conjunct2, THEN conjunct2, THEN conjunct2, THEN conjunct1, THEN mp, OF run2]
  from two_pass obtain active total_requests rps fields2 where
    c: "get_nginx_stub_status (response one_process_run) = Inr (active, total_requests) \<and>
        compute_requests_per_second (state one_process_run) total_requests
           (clock one_process_run) = Inr (rps, saved_state 250 100) \<and>
        fields2 =
          row_data (timestamp one_process_run) (cpu_usage one_process_run)
            (cols_two_pass (pad_loop (get_top_processes_by_cpu 5 (cpu_procs one_process_run))))
            (mem_usage one_process_run)
            (cols_two_pass (pad_loop (get_top_processes_by_memory 5 (mem_procs one_process_run))))
            active rps \<and>
        one_process_line = join '';'' fields2 \<and> length fields2 = 25 \<and>
        (CHR '';'' \<notin> set (timestamp one_process_run) \<and>
         (\<forall>p\<in>set (cpu_procs one_process_run @ mem_procs one_process_run).
            CHR '';'' \<notin> set (sample_name p))
         \<longrightarrow> split_on (CHR '';'') one_process_line = fields2)"
    by (elim exE) (rule that)
  from c have st: "get_nginx_stub_status (response one_process_run) = Inr (active, total_requests)"
    and rt: "compute_requests_per_second (state one_process_run) total_requests
           (clock one_process_run) = Inr (rps, saved_state 250 100)"
    by blast+
  from c ts names have "split_on (CHR '';'') one_process_line = fields2" by blast
  with c have sp: "split_on (CHR '';'') one_process_line =
       row_data (timestamp one_process_run) (cpu_usage one_process_run)
         (cols_two_pass (pad_loop (get_top_processes_by_cpu 5 (cpu_procs one_process_run))))
         (mem_usage one_process_run)
         (cols_two_pass (pad_loop (get_top_processes_by_memory 5 (mem_procs one_process_run))))
         active rps"
    by (simp only:)
  from st have a: "active = 5" and tr: "total_requests = 250"
    by (simp_all add: one_process_status_two_pass)
  from rt tr have r: "rps = Fin 5" by (simp add: one_process_rate)
  have seg: "take 11 (drop 1 (split_on (CHR '';'') one_process_line)) =
     [''12.30'', ''nginx'', ''4.50'', ''-.'', ''0.00'', ''-.'', ''0.00'', ''-.'', ''0.00'',
      ''-.'', ''0.00'']"
    by (simp add: one_process_line_def)
  from sp a r have sp5: "split_on (CHR '';'') one_process_line =
       row_data (timestamp one_process_run) (cpu_usage one_process_run)
         (cols_two_pass (pad_loop (get_top_processes_by_cpu 5 (cpu_procs one_process_run))))
         (mem_usage one_process_run)
         (cols_two_pass (pad_loop (get_top_processes_by_memory 5 (mem_procs one_process_run))))
         5 (Fin 5)"
    by (simp only:)
  show ?thesis by (intro conjI run run2 ts len sp5 seg)
qed

text \<open>
  Claim C3 as stated fails twice. A process named \<open>a;b\<close> makes the record of a completed
  run of \<^verbatim>\<open>scrape_metrics_psutil_reduced.py\<close> split into 26 fields. And in
  \<^verbatim>\<open>get_metrics_psutil.py\<close>, with one process sampled, the four missing slots are
  pairs of empty strings, not \<open>-.\<close> and \<open>0.00\<close>.
\<close>

theorem record_fields_counterexample:
  "main_reduced semicolon_run = Inr (semicolon_line, saved_state 0 100) \<and>
   length (split_on (CHR '';'') semicolon_line) = 26 \<and>
   top_fields [(''python3 get_metrics_psutil.py'', ''0.0'')] =
     [''python3 get_metrics_psutil.py'', ''0.0'', '''', '''', '''', '''', '''', '''', '''', '''']"
  by (simp add: semicolon_main semicolon_line_def top_fields_def upt_5)

text \<open>
  Claim C9 holds except on a summary line whose total is zero. With no summary line
  before the header the aggregate is \<open>0.0\<close> and the rows after the header are parsed;
  with one summary line it is \<open>used / total \<times> 100\<close> when the four quantities are
  read and the total is not zero, and \<open>0.0\<close> with the rows still parsed when one of
  them is not a number. When the four quantities are read and the total is zero, the
  division raises \<open>ZeroDivisionError\<close>, which the handler (\<open>except ValueError\<close>) does
  not catch: \<open>get_top_mem_info\<close> returns nothing and no row is parsed.
\<close>

theorem top_mem_aggregate:
  "(summary_lines absent = [] \<longrightarrow>
      get_top_mem_info to_float absent = Inr (0, process_rows absent)) \<and>
   (summary_lines output = [l] \<and> mem_line_match (strip l) = Some (g1, g2, g3, g4) \<longrightarrow>
      (to_float g1 = Some total_mib \<and> to_float g2 = Some free_mib \<and>
       to_float g3 = Some used_mib \<and> to_float g4 = Some buff_mib \<and> total_mib \<noteq> 0 \<longrightarrow>
         get_top_mem_info to_float output
           = Inr (used_mib / total_mib * 100, process_rows output)) \<and>
      (to_float g1 = None \<or> to_float g2 = None \<or> to_float g3 = None \<or> to_float g4 = None \<longrightarrow>
         get_top_mem_info to_float output = Inr (0, process_rows output)) \<and>
      (to_float g1 = Some 0 \<and> to_float g2 = Some free_mib \<and>
       to_float g3 = Some used_mib \<and> to_float g4 = Some buff_mib \<longrightarrow>
         get_top_mem_info to_float output = Inl ZeroDivisionError))"
proof (intro conjI impI)
  assume "summary_lines absent = []"
  then show "get_top_mem_info to_float absent = Inr (0, process_rows absent)"
    by (rule top_mem_absent)
next
  assume one: "summary_lines output = [l] \<and> mem_line_match (strip l) = Some (g1, g2, g3, g4)"
    and ok: "to_float g1 = Some total_mib \<and> to_float g2 = Some free_mib \<and>
       to_float g3 = Some used_mib \<and> to_float g4 = Some buff_mib \<and> total_mib \<noteq> 0"
  from one have "get_top_mem_info to_float output =
     (case catch {ValueError} (mem_try to_float (g1, g2, g3, g4)) 0 of
        Inl e \<Rightarrow> Inl e
      | Inr u \<Rightarrow> Inr (u, process_rows output))"
    using top_mem_one by blast
  then show "get_top_mem_info to_float output
      = Inr (used_mib / total_mib * 100, process_rows output)"
    using ok by (simp add: mem_try_cases(1))
next
  assume one: "summary_lines output = [l] \<and> mem_line_match (strip l) = Some (g1, g2, g3, g4)"
    and bad: "to_float g1 = None \<or> to_float g2 = None \<or> to_float g3 = None \<or> to_float g4 = None"
  from one have "get_top_mem_info to_float output =
     (case catch {ValueError} (mem_try to_float (g1, g2, g3, g4)) 0 of
        Inl e \<Rightarrow> Inl e
      | Inr u \<Rightarrow> Inr (u, process_rows output))"
    using top_mem_one by blast
  then show "get_top_mem_info to_float output = Inr (0, process_rows output)"
    using mem_try_cases(2)[OF bad] by simp
next
  assume one: "summary_lines output = [l] \<and> mem_line_match (strip l) = Some (g1, g2, g3, g4)"
    and zero: "to_float g1 = Some 0 \<and> to_float g2 = Some free_mib \<and>
       to_float g3 = Some used_mib \<and> to_float g4 = Some buff_mib"
  from one have "get_top_mem_info to_float output =
     (case catch {ValueError} (mem_try to_float (g1, g2, g3, g4)) 0 of
        Inl e \<Rightarrow> Inl e
      | Inr u \<Rightarrow> Inr (u, process_rows output))"
    using top_mem_one by blast
  then show "get_top_mem_info to_float output = Inl ZeroDivisionError"
    using zero by (simp add: mem_try_cases(3)[of to_float g1 g2 free_mib g3 used_mib g4 buff_mib])
qed

text \<open>
  The theorem at four outputs of \<open>top\<close>: 4000 of 16000 MiB used gives \<open>25\<close>; a summary
  line in GiB is not recognised and gives \<open>0\<close>; a summary line with decimal commas
  gives \<open>0\<close>; in all three the row after the header is parsed. A total of \<open>0.0\<close>
  raises.
\<close>

theorem top_mem_aggregate_witness:
  "get_top_mem_info decimal_float top_output = Inr (25, [(''/sbin/init splash'', ''0.1'')]) \<and>
   summary_lines no_summary_output = [] \<and>
   get_top_mem_info decimal_float no_summary_output = Inr (0, [(''/sbin/init splash'', ''0.1'')]) \<and>
   decimal_float ''16000,0'' = None \<and>
   get_top_mem_info decimal_float comma_output = Inr (0, [(''/sbin/init splash'', ''0.1'')]) \<and>
   decimal_float ''0.0'' = Some 0 \<and>
   get_top_mem_info decimal_float zero_total_output = Inl ZeroDivisionError"
  using
    top_mem_aggregate[of no_summary_output decimal_float top_output mem_summary_line
      "''16000.0''" "''12000.0''" "''4000.0''" "''0.0''" 16000 12000 4000 0]
    top_mem_aggregate[of no_summary_output decimal_float comma_output comma_summary_line
      "''16000,0''" "''12000,0''" "''4000,0''" "''0,0''" 0 0 0 0]
    top_mem_aggregate[of no_summary_output decimal_float zero_total_output zero_summary_line
      "''0.0''" "''0.0''" "''0.0''" "''0.0''" 0 0 0 0]
  by (simp add: decimal_float_examples top_output_summary zero_total_output_summary
        no_summary_output_summary comma_output_summary summary_line_matches)

end
